theory Spec2Isabelle
  imports Complex_Main "HOL-Library.Word"
begin

section \<open>Python values used by the gateway\<close>

text \<open>
  Text is modelled as \<open>string\<close> (a list of 8-bit characters), so the Python strings of the
  source are read as their ASCII/UTF-8 bytes. \<open>str.lower()\<close> is modelled on the letters
  \<open>A\<close>..\<open>Z\<close>; every pattern the classifier looks for is lower-case ASCII. Likewise
  \<open>str.isspace\<close> and \<open>str.isalnum\<close> are modelled on the ASCII characters, and a slice such as
  \<open>s[:200]\<close> counts bytes: on text outside ASCII the model and Python can differ in these
  four places. Binary payloads are lists of bytes.
\<close>

type_synonym bytes = "8 word list"

definition lower_char :: "char \<Rightarrow> char" where
  "lower_char c =
     (case map_of (zip ''ABCDEFGHIJKLMNOPQRSTUVWXYZ'' ''abcdefghijklmnopqrstuvwxyz'') c of
        Some d \<Rightarrow> d
      | None \<Rightarrow> c)"

definition py_lower :: "string \<Rightarrow> string" where
  "py_lower s = map lower_char s"

text \<open>\<open>s.startswith(p)\<close> and the substring test \<open>p in s\<close>.\<close>

fun startswith :: "string \<Rightarrow> string \<Rightarrow> bool" where
  "startswith s [] = True"
| "startswith [] (p # ps) = False"
| "startswith (c # cs) (p # ps) = (c = p \<and> startswith cs ps)"

fun py_in :: "string \<Rightarrow> string \<Rightarrow> bool" where
  "py_in p [] = (p = [])"
| "py_in p (c # cs) = (startswith (c # cs) p \<or> py_in p cs)"

text \<open>\<open>any(pattern in error_msg for pattern in patterns)\<close>.\<close>

definition any_in :: "string \<Rightarrow> string list \<Rightarrow> bool" where
  "any_in error_msg patterns = list_ex (\<lambda>pattern. py_in pattern error_msg) patterns"

text \<open>\<open>sep.join(xs)\<close>.\<close>

fun py_join :: "string \<Rightarrow> string list \<Rightarrow> string" where
  "py_join sep [] = []"
| "py_join sep [x] = x"
| "py_join sep (x # y # ys) = x @ sep @ py_join sep (y # ys)"

text \<open>
  JSON-like values: the \<open>detail\<close> payload of an \<open>HTTPException\<close>, the argument dictionaries
  sent to the providers and the providers' answers. A Python \<open>dict\<close> is an association list
  in insertion order.
\<close>

datatype jval =
    JNone
  | JBool bool
  | JInt int
  | JFloat rat
  | JStr string
  | JList "jval list"
  | JDict "(string \<times> jval) list"

section \<open>Error handling (app/core/error_handlers.py)\<close>

text \<open>\<open>fastapi.HTTPException(status_code, detail)\<close>.\<close>

record http_exception =
  status_code :: int
  detail :: jval

definition create_error_response ::
  "int \<Rightarrow> string \<Rightarrow> string \<Rightarrow> jval option \<Rightarrow> string option \<Rightarrow> http_exception" where
  "create_error_response status error_type message details field =
     (let error_detail =
            [(''error'', JStr error_type),
             (''message'', JStr message),
             (''status_code'', JInt status)];
          error_detail =
            (case details of None \<Rightarrow> error_detail
             | Some d \<Rightarrow> error_detail @ [(''details'', d)]);
          error_detail =
            (case field of None \<Rightarrow> error_detail
             | Some f \<Rightarrow> error_detail @ [(''field'', JStr f)])
      in \<lparr>status_code = status, detail = JDict error_detail\<rparr>)"

text \<open>
  The classifiers read only \<open>str(e)\<close>, so the exception argument \<open>e\<close> is its message.
  \<open>handle_fal_ai_error\<close> is a chain of \<open>if any(...): return ...\<close> statements; the first
  group with a pattern occurring in the lower-cased message decides.
\<close>

definition handle_fal_ai_error :: "string \<Rightarrow> string \<Rightarrow> http_exception" where
  "handle_fal_ai_error e operation =
    (let error_msg = py_lower e;
         original_error = e
     in
     if any_in error_msg
         [''rate limit'', ''429'', ''quota exceeded'', ''too many requests'',
          ''rate exceeded'', ''throttled'', ''quota''] then
       create_error_response 429 ''Rate Limit Error''
         ''API rate limit exceeded. You've made too many requests in a short time period.''
         (Some (JDict [
            (''service'', JStr ''AI Service''),
            (''operation'', JStr operation),
            (''error_type'', JStr ''rate_limit''),
            (''resolution'', JStr ''Wait a few minutes before making another request. Consider upgrading your service plan for higher limits.'')])) None
     else if any_in error_msg
         [''api key'', ''unauthorized'', ''401'', ''authentication failed'',
          ''invalid api key'', ''missing api key'', ''fal_key''] then
       create_error_response 401 ''Authentication Error''
         ''API authentication failed. Please check that your API key is correctly configured in the environment.''
         (Some (JDict [
            (''service'', JStr ''AI Service''),
            (''operation'', JStr operation),
            (''error_type'', JStr ''authentication''),
            (''resolution'', JStr ''Verify that your API key environment variable is set with a valid API key'')])) None
     else if any_in error_msg
         [''face_detection_error'', ''could not detect face'',
          ''no face detected'', ''face detection failed'', ''face not found''] then
       create_error_response 422 ''Face Detection Error''
         ''Could not detect a face in the provided image. Face detection is required for this operation.''
         (Some (JDict [
            (''service'', JStr ''AI Service''),
            (''operation'', JStr operation),
            (''error_type'', JStr ''face_detection_error''),
            (''resolution'', JStr ''Ensure the image contains a clear, visible face and try again with a different image.'')])) None
     else if any_in error_msg
         [''safety'', ''content policy'', ''inappropriate'', ''nsfw'',
          ''violation'', ''safety checker'', ''moderation'', ''blocked'',
          ''filtered'', ''content_policy_violation''] then
       create_error_response 422 ''Content Policy Violation''
         ''Your request was blocked by the service's safety filters. The prompt may contain inappropriate content.''
         (Some (JDict [
            (''service'', JStr ''AI Service''),
            (''operation'', JStr operation),
            (''error_type'', JStr ''content_policy_violation''),
            (''resolution'', JStr ''Modify your prompt to remove potentially inappropriate, violent, or explicit content and try again.'')])) None
     else if any_in error_msg
         [''image_too_small'', ''image too small'', ''minimum size'',
          ''min_height'', ''min_width''] then
       create_error_response 422 ''Image Too Small''
         ''The provided image dimensions are smaller than the required minimum size.''
         (Some (JDict [
            (''service'', JStr ''AI Service''),
            (''operation'', JStr operation),
            (''error_type'', JStr ''image_too_small''),
            (''resolution'', JStr ''Use an image with larger dimensions that meets the minimum size requirements.'')])) None
     else if any_in error_msg
         [''image_too_large'', ''image too large'', ''maximum size'',
          ''max_height'', ''max_width'', ''image dimensions exceed''] then
       create_error_response 422 ''Image Too Large''
         ''The provided image dimensions exceed the maximum allowed limits.''
         (Some (JDict [
            (''service'', JStr ''AI Service''),
            (''operation'', JStr operation),
            (''error_type'', JStr ''image_too_large''),
            (''resolution'', JStr ''Resize your image to smaller dimensions that meet the maximum size requirements.'')])) None
     else if any_in error_msg
         [''unsupported_image_format'', ''unsupported image format'',
          ''invalid image format'', ''image format not supported''] then
       create_error_response 422 ''Unsupported Image Format''
         ''The image file format is not supported. Use a supported format like JPEG, PNG, or WebP.''
         (Some (JDict [
            (''service'', JStr ''AI Service''),
            (''operation'', JStr operation),
            (''error_type'', JStr ''unsupported_image_format''),
            (''resolution'', JStr ''Convert your image to a supported format (JPEG, PNG, WebP) and try again.'')])) None
     else if any_in error_msg
         [''unsupported_audio_format'', ''unsupported audio format'',
          ''invalid audio format'', ''audio format not supported''] then
       create_error_response 422 ''Unsupported Audio Format''
         ''The audio file format is not supported. Use a supported format like MP3, WAV, or OGG.''
         (Some (JDict [
            (''service'', JStr ''AI Service''),
            (''operation'', JStr operation),
            (''error_type'', JStr ''unsupported_audio_format''),
            (''resolution'', JStr ''Convert your audio file to a supported format (MP3, WAV, OGG) and try again.'')])) None
     else if any_in error_msg
         [''unsupported_video_format'', ''unsupported video format'',
          ''invalid video format'', ''video format not supported''] then
       create_error_response 422 ''Unsupported Video Format''
         ''The video file format is not supported. Use a supported format like MP4, MOV, or WebM.''
         (Some (JDict [
            (''service'', JStr ''AI Service''),
            (''operation'', JStr operation),
            (''error_type'', JStr ''unsupported_video_format''),
            (''resolution'', JStr ''Convert your video file to a supported format (MP4, MOV, WebM) and try again.'')])) None
     else if any_in error_msg
         [''404'', ''not found'', ''model not found'', ''endpoint not found'',
          ''invalid model'', ''model does not exist''] then
       create_error_response 404 ''Model Not Found''
         ''The specified AI model or endpoint was not found. The model may have been updated or deprecated.''
         (Some (JDict [
            (''service'', JStr ''AI Service''),
            (''operation'', JStr operation),
            (''error_type'', JStr ''model_not_found''),
            (''resolution'', JStr ''Check the API documentation for the correct model endpoint name and update your code.'')])) None
     else if any_in error_msg
         [''file_too_large'', ''file too large'', ''file size'',
          ''exceeds maximum'', ''max_size''] then
       create_error_response 422 ''File Too Large''
         ''The uploaded file exceeds the maximum allowed size limit.''
         (Some (JDict [
            (''service'', JStr ''AI Service''),
            (''operation'', JStr operation),
            (''error_type'', JStr ''file_too_large''),
            (''resolution'', JStr ''Reduce the file size or use a smaller file that meets the size requirements.'')])) None
     else if any_in error_msg
         [''invalid_archive'', ''invalid archive'', ''corrupted archive'',
          ''cannot read archive'', ''archive format'', ''unsupported archive''] then
       create_error_response 422 ''Invalid Archive''
         ''The provided archive file cannot be read or processed. It may be corrupted or in an unsupported format.''
         (Some (JDict [
            (''service'', JStr ''AI Service''),
            (''operation'', JStr operation),
            (''error_type'', JStr ''invalid_archive''),
            (''resolution'', JStr ''Ensure the archive is a valid ZIP or TAR.GZ file and not corrupted.'')])) None
     else if any_in error_msg
         [''archive_file_count_below_minimum'', ''too few files'',
          ''minimum files'', ''min_count''] then
       create_error_response 422 ''Archive Has Too Few Files''
         ''The provided archive contains fewer files than the minimum required count.''
         (Some (JDict [
            (''service'', JStr ''AI Service''),
            (''operation'', JStr operation),
            (''error_type'', JStr ''archive_file_count_below_minimum''),
            (''resolution'', JStr ''Add more files to your archive to meet the minimum file count requirement.'')])) None
     else if any_in error_msg
         [''archive_file_count_exceeds_maximum'', ''too many files'',
          ''maximum files'', ''max_count''] then
       create_error_response 422 ''Archive Has Too Many Files''
         ''The provided archive contains more files than the maximum allowed count.''
         (Some (JDict [
            (''service'', JStr ''AI Service''),
            (''operation'', JStr operation),
            (''error_type'', JStr ''archive_file_count_exceeds_maximum''),
            (''resolution'', JStr ''Remove some files from your archive to meet the maximum file count limit.'')])) None
     else if any_in error_msg
         [''audio_duration_too_long'', ''audio duration too long'',
          ''audio too long'', ''max_duration''] then
       create_error_response 422 ''Audio Duration Too Long''
         ''The provided audio file exceeds the maximum allowed duration.''
         (Some (JDict [
            (''service'', JStr ''AI Service''),
            (''operation'', JStr operation),
            (''error_type'', JStr ''audio_duration_too_long''),
            (''resolution'', JStr ''Trim your audio file to meet the maximum duration requirement.'')])) None
     else if any_in error_msg
         [''audio_duration_too_short'', ''audio duration too short'',
          ''audio too short'', ''min_duration''] then
       create_error_response 422 ''Audio Duration Too Short''
         ''The provided audio file is shorter than the minimum required duration.''
         (Some (JDict [
            (''service'', JStr ''AI Service''),
            (''operation'', JStr operation),
            (''error_type'', JStr ''audio_duration_too_short''),
            (''resolution'', JStr ''Use a longer audio file that meets the minimum duration requirement.'')])) None
     else if any_in error_msg
         [''video_duration_too_long'', ''video duration too long'',
          ''video too long''] then
       create_error_response 422 ''Video Duration Too Long''
         ''The provided video file exceeds the maximum allowed duration.''
         (Some (JDict [
            (''service'', JStr ''AI Service''),
            (''operation'', JStr operation),
            (''error_type'', JStr ''video_duration_too_long''),
            (''resolution'', JStr ''Trim your video file to meet the maximum duration requirement.'')])) None
     else if any_in error_msg
         [''video_duration_too_short'', ''video duration too short'',
          ''video too short''] then
       create_error_response 422 ''Video Duration Too Short''
         ''The provided video file is shorter than the minimum required duration.''
         (Some (JDict [
            (''service'', JStr ''AI Service''),
            (''operation'', JStr operation),
            (''error_type'', JStr ''video_duration_too_short''),
            (''resolution'', JStr ''Use a longer video file that meets the minimum duration requirement.'')])) None
     else if any_in error_msg
         [''greater_than'', ''should be greater than'', ''must be greater than'',
          ''gt''] then
       create_error_response 422 ''Value Too Small''
         ''The provided numeric value is not greater than the required minimum.''
         (Some (JDict [
            (''service'', JStr ''AI Service''),
            (''operation'', JStr operation),
            (''error_type'', JStr ''greater_than''),
            (''resolution'', JStr ''Use a larger value that meets the minimum requirement.'')])) None
     else if any_in error_msg
         [''greater_than_equal'', ''should be greater than or equal'',
          ''must be greater than or equal'', ''ge''] then
       create_error_response 422 ''Value Too Small''
         ''The provided numeric value is less than the required minimum.''
         (Some (JDict [
            (''service'', JStr ''AI Service''),
            (''operation'', JStr operation),
            (''error_type'', JStr ''greater_than_equal''),
            (''resolution'', JStr ''Use a value greater than or equal to the minimum requirement.'')])) None
     else if any_in error_msg
         [''less_than'', ''should be less than'', ''must be less than'', ''lt''] then
       create_error_response 422 ''Value Too Large''
         ''The provided numeric value is not less than the required maximum.''
         (Some (JDict [
            (''service'', JStr ''AI Service''),
            (''operation'', JStr operation),
            (''error_type'', JStr ''less_than''),
            (''resolution'', JStr ''Use a smaller value that meets the maximum requirement.'')])) None
     else if any_in error_msg
         [''less_than_equal'', ''should be less than or equal'',
          ''must be less than or equal'', ''le''] then
       create_error_response 422 ''Value Too Large''
         ''The provided numeric value is greater than the required maximum.''
         (Some (JDict [
            (''service'', JStr ''AI Service''),
            (''operation'', JStr operation),
            (''error_type'', JStr ''less_than_equal''),
            (''resolution'', JStr ''Use a value less than or equal to the maximum requirement.'')])) None
     else if any_in error_msg
         [''multiple_of'', ''should be a multiple of'',
          ''must be a multiple of'', ''multiple''] then
       create_error_response 422 ''Invalid Multiple''
         ''The provided numeric value is not a multiple of the required factor.''
         (Some (JDict [
            (''service'', JStr ''AI Service''),
            (''operation'', JStr operation),
            (''error_type'', JStr ''multiple_of''),
            (''resolution'', JStr ''Use a value that is a multiple of the required factor.'')])) None
     else if any_in error_msg
         [''sequence_too_short'', ''sequence too short'',
          ''should have at least'', ''min_length''] then
       create_error_response 422 ''Sequence Too Short''
         ''The provided sequence has fewer items than the required minimum length.''
         (Some (JDict [
            (''service'', JStr ''AI Service''),
            (''operation'', JStr operation),
            (''error_type'', JStr ''sequence_too_short''),
            (''resolution'', JStr ''Add more items to meet the minimum length requirement.'')])) None
     else if any_in error_msg
         [''sequence_too_long'', ''sequence too long'', ''should have at most'',
          ''max_length''] then
       create_error_response 422 ''Sequence Too Long''
         ''The provided sequence has more items than the maximum allowed length.''
         (Some (JDict [
            (''service'', JStr ''AI Service''),
            (''operation'', JStr operation),
            (''error_type'', JStr ''sequence_too_long''),
            (''resolution'', JStr ''Remove some items to meet the maximum length limit.'')])) None
     else if any_in error_msg
         [''one_of'', ''should be'', ''invalid choice'',
          ''not in allowed values'', ''expected''] then
       create_error_response 422 ''Invalid Choice''
         ''The provided value is not among the set of allowed values.''
         (Some (JDict [
            (''service'', JStr ''AI Service''),
            (''operation'', JStr operation),
            (''error_type'', JStr ''one_of''),
            (''resolution'', JStr ''Use one of the allowed values specified in the API documentation.'')])) None
     else if any_in error_msg
         [''generation_timeout'', ''generation timeout'', ''request timeout'',
          ''operation timed out''] then
       create_error_response 504 ''Generation Timeout''
         ''The generation request took longer than the allowed time limit to complete.''
         (Some (JDict [
            (''service'', JStr ''AI Service''),
            (''operation'', JStr operation),
            (''error_type'', JStr ''generation_timeout''),
            (''resolution'', JStr ''Try again with simpler parameters or retry later when the service is less busy.'')])) None
     else if any_in error_msg
         [''downstream_service_error'', ''downstream service error'',
          ''external service error''] then
       create_error_response 400 ''Downstream Service Error''
         ''There was a problem communicating with an external service required to fulfill the request.''
         (Some (JDict [
            (''service'', JStr ''AI Service''),
            (''operation'', JStr operation),
            (''error_type'', JStr ''downstream_service_error''),
            (''resolution'', JStr ''This is usually a temporary issue. Try again in a few minutes.'')])) None
     else if any_in error_msg
         [''downstream_service_unavailable'', ''downstream service unavailable'',
          ''external service unavailable''] then
       create_error_response 500 ''Downstream Service Unavailable''
         ''A required third-party service is currently unavailable, preventing the request from being fulfilled.''
         (Some (JDict [
            (''service'', JStr ''AI Service''),
            (''operation'', JStr operation),
            (''error_type'', JStr ''downstream_service_unavailable''),
            (''resolution'', JStr ''Wait a few minutes and try again. The external service should be back online shortly.'')])) None
     else if any_in error_msg
         [''feature_not_supported'', ''feature not supported'',
          ''not supported'', ''unsupported feature''] then
       create_error_response 422 ''Feature Not Supported''
         ''The combination of input parameters requests a feature that is not supported by this endpoint.''
         (Some (JDict [
            (''service'', JStr ''AI Service''),
            (''operation'', JStr operation),
            (''error_type'', JStr ''feature_not_supported''),
            (''resolution'', JStr ''Check the API documentation for supported features and adjust your parameters.'')])) None
     else if any_in error_msg
         [''image_load_error'', ''image load error'', ''failed to load image'',
          ''corrupted image''] then
       create_error_response 422 ''Image Load Error''
         ''Failed to load or process the provided image. The image may be corrupted or in an unsupported format.''
         (Some (JDict [
            (''service'', JStr ''AI Service''),
            (''operation'', JStr operation),
            (''error_type'', JStr ''image_load_error''),
            (''resolution'', JStr ''Verify the image file is not corrupted and is in a supported format.'')])) None
     else if any_in error_msg
         [''file_download_error'', ''file download error'',
          ''failed to download'', ''download failed''] then
       create_error_response 422 ''File Download Error''
         ''Failed to download the file from the provided URL. Ensure the URL is publicly accessible.''
         (Some (JDict [
            (''service'', JStr ''AI Service''),
            (''operation'', JStr operation),
            (''error_type'', JStr ''file_download_error''),
            (''resolution'', JStr ''Check that the URL is correct, publicly accessible, and not behind authentication.'')])) None
     else if any_in error_msg
         [''503'', ''502'', ''500'', ''service unavailable'', ''server error'',
          ''model unavailable'', ''temporarily unavailable'', ''maintenance''] then
       create_error_response 503 ''Service Unavailable''
         ''AI service is temporarily unavailable. This may be due to high demand or maintenance.''
         (Some (JDict [
            (''service'', JStr ''AI Service''),
            (''operation'', JStr operation),
            (''error_type'', JStr ''service_unavailable''),
            (''resolution'', JStr ''Wait a few minutes and try again. Check the service status page for any ongoing issues.'')])) None
     else if any_in error_msg
         [''timeout'', ''504'', ''gateway timeout'', ''request timeout'',
          ''time out'', ''timed out'', ''deadline exceeded''] then
       create_error_response 504 ''Request Timeout''
         ''The request to the AI service timed out. Complex prompts or high-resolution images may take longer to process.''
         (Some (JDict [
            (''service'', JStr ''AI Service''),
            (''operation'', JStr operation),
            (''error_type'', JStr ''timeout''),
            (''resolution'', JStr ''Try simplifying your prompt, reducing image size, or trying again later when the service is less busy.'')])) None
     else if any_in error_msg
         [''400'', ''bad request'', ''invalid'', ''parameter'', ''argument'',
          ''validation error'', ''invalid input'', ''malformed'',
          ''parse error''] then
       (let param_hint =
              (if py_in ''image_size'' error_msg then
                '' Check that image_size is valid (e.g., 'square_hd', 'portrait_4_3', 'landscape_4_3').''
               else if py_in ''prompt'' error_msg then
                '' Ensure your prompt is not empty and contains valid text.''
               else if py_in ''num_inference_steps'' error_msg then
                '' Check that num_inference_steps is within the valid range (typically 1-50).''
               else if py_in ''guidance_scale'' error_msg then
                '' Ensure guidance_scale is a positive number (typically 1.0-20.0).''
               else '''')
        in create_error_response 400 ''Invalid Request''
             (''Invalid parameters sent to the AI service.'' @ param_hint)
             (Some (JDict [
                (''service'', JStr ''AI Service''),
                (''operation'', JStr operation),
                (''error_type'', JStr ''invalid_parameters''),
                (''resolution'', JStr ''Check the API documentation for valid parameter values and formats.''),
                (''original_error'', JStr original_error)])) None)
     else if any_in error_msg
         [''upload'', ''file'', ''image too large'', ''file size'',
          ''format not supported'', ''invalid file'', ''corrupted'',
          ''unsupported format''] then
       create_error_response 400 ''File Upload Error''
         ''There was an issue with the uploaded file. Check file format, size, and integrity.''
         (Some (JDict [
            (''service'', JStr ''AI Service''),
            (''operation'', JStr operation),
            (''error_type'', JStr ''file_upload_error''),
            (''resolution'', JStr ''Ensure files are in supported formats (JPEG, PNG, WebP), under size limits, and not corrupted.'')])) None
     else if any_in error_msg
         [''connection'', ''network'', ''dns'', ''unreachable'',
          ''connection refused'', ''connection error'', ''network error'',
          ''ssl error''] then
       create_error_response 503 ''Network Error''
         ''Unable to connect to AI services. Check your internet connection.''
         (Some (JDict [
            (''service'', JStr ''AI Service''),
            (''operation'', JStr operation),
            (''error_type'', JStr ''network_error''),
            (''resolution'', JStr ''Check your internet connection and firewall settings. The issue may be temporary.'')])) None
     else if any_in error_msg
         [''no images'', ''empty result'', ''no output'', ''failed to generate'',
          ''generation failed'', ''no content generated''] then
       create_error_response 500 ''Generation Failed''
         ''AI service failed to generate any output. This may be due to prompt complexity or temporary service issues.''
         (Some (JDict [
            (''service'', JStr ''AI Service''),
            (''operation'', JStr operation),
            (''error_type'', JStr ''generation_failed''),
            (''resolution'', JStr ''Try simplifying your prompt, adjusting parameters, or trying again in a few minutes.'')])) None
     else if any_in error_msg
         [''payment'', ''billing'', ''insufficient'', ''credits'', ''balance'',
          ''subscription'', ''plan'', ''payment required''] then
       create_error_response 402 ''Payment Required''
         ''Your AI service account has insufficient credits or an inactive subscription.''
         (Some (JDict [
            (''service'', JStr ''AI Service''),
            (''operation'', JStr operation),
            (''error_type'', JStr ''payment_required''),
            (''resolution'', JStr ''Check your account balance and add credits or upgrade your subscription plan.'')])) None
     else
       create_error_response 500 ''AI Service Error''
         (''An unexpected error occurred with AI service during '' @ operation @ ''. This may be a temporary service issue.'')
         (Some (JDict [
            (''service'', JStr ''AI Service''),
            (''operation'', JStr operation),
            (''error_type'', JStr ''generic''),
            (''resolution'', JStr ''Try again in a few minutes. If the problem persists, contact support.''),
            (''original_error'', JStr (take 200 original_error))])) None)"


definition handle_openai_error :: "string \<Rightarrow> string \<Rightarrow> http_exception" where
  "handle_openai_error e operation =
    (let error_msg = py_lower e in
     if py_in ''api key'' error_msg \<or> py_in ''unauthorized'' error_msg then
       create_error_response 401 ''Authentication Error''
         ''OpenAI authentication failed. Please check the service configuration.''
         (Some (JDict [(''service'', JStr ''OpenAI''), (''operation'', JStr operation)])) None
     else if py_in ''rate limit'' error_msg \<or> py_in ''quota'' error_msg then
       create_error_response 429 ''Rate Limit Error''
         ''OpenAI rate limit exceeded. Please wait a moment before trying again.''
         (Some (JDict [(''service'', JStr ''OpenAI''), (''operation'', JStr operation)])) None
     else if py_in ''content policy'' error_msg \<or> py_in ''safety'' error_msg then
       create_error_response 400 ''Content Policy Violation''
         ''Your request was rejected due to content policy restrictions. Please modify your prompt and try again.''
         (Some (JDict [(''service'', JStr ''OpenAI''), (''operation'', JStr operation)])) None
     else
       create_error_response 500 ''AI Service Error''
         (''An error occurred with OpenAI during '' @ operation @ ''. Please try again later.'')
         (Some (JDict [(''service'', JStr ''OpenAI''), (''operation'', JStr operation)])) None)"

definition handle_google_ai_error :: "string \<Rightarrow> string \<Rightarrow> http_exception" where
  "handle_google_ai_error e operation =
    (let error_msg = py_lower e in
     if py_in ''api key'' error_msg \<or> py_in ''unauthorized'' error_msg then
       create_error_response 401 ''Authentication Error''
         ''Google AI authentication failed. Please check the service configuration.''
         (Some (JDict [(''service'', JStr ''Google AI''), (''operation'', JStr operation)])) None
     else if py_in ''quota'' error_msg \<or> py_in ''rate limit'' error_msg then
       create_error_response 429 ''Rate Limit Error''
         ''Google AI rate limit exceeded. Please wait a moment before trying again.''
         (Some (JDict [(''service'', JStr ''Google AI''), (''operation'', JStr operation)])) None
     else if py_in ''safety'' error_msg \<or> py_in ''content policy'' error_msg then
       create_error_response 400 ''Content Policy Violation''
         ''Your request was rejected due to content policy restrictions. Please modify your prompt and try again.''
         (Some (JDict [(''service'', JStr ''Google AI''), (''operation'', JStr operation)])) None
     else
       create_error_response 500 ''AI Service Error''
         (''An error occurred with Google AI during '' @ operation @ ''. Please try again later.'')
         (Some (JDict [(''service'', JStr ''Google AI''), (''operation'', JStr operation)])) None)"

text \<open>
  In the second test of \<open>handle_storage_error\<close> Python's \<open>and\<close> binds tighter than \<open>or\<close>.
\<close>

definition handle_storage_error :: "string \<Rightarrow> string \<Rightarrow> http_exception" where
  "handle_storage_error e operation =
    (let error_msg = py_lower e in
     if py_in ''permission'' error_msg \<or> py_in ''access denied'' error_msg then
       create_error_response 403 ''Storage Permission Error''
         ''Unable to save the generated content due to storage permissions.''
         (Some (JDict [(''service'', JStr ''Storage''), (''operation'', JStr operation)])) None
     else if py_in ''quota'' error_msg \<or> (py_in ''storage'' error_msg \<and> py_in ''full'' error_msg) then
       create_error_response 507 ''Storage Full''
         ''Storage quota exceeded. Please contact support.''
         (Some (JDict [(''service'', JStr ''Storage''), (''operation'', JStr operation)])) None
     else
       create_error_response 500 ''Storage Error''
         ''Unable to save the generated content. The content was generated successfully but couldn't be stored.''
         (Some (JDict [(''service'', JStr ''Storage''), (''operation'', JStr operation)])) None)"

definition handle_service_error :: "string \<Rightarrow> string \<Rightarrow> string \<Rightarrow> http_exception" where
  "handle_service_error e service_name operation =
    (let error_msg = py_lower e;
         original_error = e
     in
     if any_in (py_lower service_name) [''fal'', ''flux'', ''kontext''] \<or>
        any_in error_msg [''fal.ai'', ''fal_client'', ''fal-ai''] then
       handle_fal_ai_error e operation
     else if py_in ''openai'' error_msg \<or> py_in ''gpt'' error_msg \<or> py_in ''dalle'' error_msg then
       handle_openai_error e operation
     else if py_in ''gemini'' error_msg \<or> py_in ''google'' error_msg \<or> py_in ''imagen'' error_msg then
       handle_google_ai_error e operation
     else if py_in ''storage'' error_msg \<or> py_in ''gcs'' error_msg \<or> py_in ''bucket'' error_msg then
       handle_storage_error e operation
     else if any_in error_msg [''connection'', ''timeout'', ''network'', ''unreachable''] then
       create_error_response 503 ''Network Error''
         (''Network connection failed during '' @ operation @ ''. Please check your internet connection and try again.'')
         (Some (JDict [(''service'', JStr service_name), (''operation'', JStr operation),
                       (''error_type'', JStr ''network'')])) None
     else if py_in ''rate limit'' error_msg \<or> py_in ''quota'' error_msg then
       create_error_response 429 ''Rate Limit Error''
         (''Rate limit exceeded during '' @ operation @ ''. Please wait a moment before trying again.'')
         (Some (JDict [(''service'', JStr service_name), (''operation'', JStr operation)])) None
     else if py_in ''unauthorized'' error_msg \<or> py_in ''api key'' error_msg \<or>
             py_in ''authentication'' error_msg then
       create_error_response 401 ''Authentication Error''
         (''Authentication failed with '' @ service_name @ ''. Please check service configuration.'')
         (Some (JDict [(''service'', JStr service_name), (''operation'', JStr operation)])) None
     else if py_in ''forbidden'' error_msg \<or> py_in ''permission'' error_msg then
       create_error_response 403 ''Authorization Error''
         (''Insufficient permissions for '' @ operation @ '' with '' @ service_name @ ''.'')
         (Some (JDict [(''service'', JStr service_name), (''operation'', JStr operation)])) None
     else if py_in ''not found'' error_msg \<or> py_in ''404'' error_msg then
       create_error_response 404 ''Resource Not Found''
         (''The requested resource for '' @ operation @ '' was not found.'')
         (Some (JDict [(''service'', JStr service_name), (''operation'', JStr operation)])) None
     else
       create_error_response 500 ''Service Error''
         (''An error occurred during '' @ operation @ ''. Please try again later.'')
         (Some (JDict [(''service'', JStr service_name), (''operation'', JStr operation)])) None)"

definition fal_ai_pattern_groups :: "string list list" where
  "fal_ai_pattern_groups =
    [[''rate limit'', ''429'', ''quota exceeded'', ''too many requests'',
      ''rate exceeded'', ''throttled'', ''quota''],
     [''api key'', ''unauthorized'', ''401'', ''authentication failed'',
      ''invalid api key'', ''missing api key'', ''fal_key''],
     [''face_detection_error'', ''could not detect face'',
      ''no face detected'', ''face detection failed'', ''face not found''],
     [''safety'', ''content policy'', ''inappropriate'', ''nsfw'',
      ''violation'', ''safety checker'', ''moderation'', ''blocked'',
      ''filtered'', ''content_policy_violation''],
     [''image_too_small'', ''image too small'', ''minimum size'',
      ''min_height'', ''min_width''],
     [''image_too_large'', ''image too large'', ''maximum size'',
      ''max_height'', ''max_width'', ''image dimensions exceed''],
     [''unsupported_image_format'', ''unsupported image format'',
      ''invalid image format'', ''image format not supported''],
     [''unsupported_audio_format'', ''unsupported audio format'',
      ''invalid audio format'', ''audio format not supported''],
     [''unsupported_video_format'', ''unsupported video format'',
      ''invalid video format'', ''video format not supported''],
     [''404'', ''not found'', ''model not found'', ''endpoint not found'',
      ''invalid model'', ''model does not exist''],
     [''file_too_large'', ''file too large'', ''file size'',
      ''exceeds maximum'', ''max_size''],
     [''invalid_archive'', ''invalid archive'', ''corrupted archive'',
      ''cannot read archive'', ''archive format'', ''unsupported archive''],
     [''archive_file_count_below_minimum'', ''too few files'',
      ''minimum files'', ''min_count''],
     [''archive_file_count_exceeds_maximum'', ''too many files'',
      ''maximum files'', ''max_count''],
     [''audio_duration_too_long'', ''audio duration too long'',
      ''audio too long'', ''max_duration''],
     [''audio_duration_too_short'', ''audio duration too short'',
      ''audio too short'', ''min_duration''],
     [''video_duration_too_long'', ''video duration too long'',
      ''video too long''],
     [''video_duration_too_short'', ''video duration too short'',
      ''video too short''],
     [''greater_than'', ''should be greater than'', ''must be greater than'',
      ''gt''],
     [''greater_than_equal'', ''should be greater than or equal'',
      ''must be greater than or equal'', ''ge''],
     [''less_than'', ''should be less than'', ''must be less than'', ''lt''],
     [''less_than_equal'', ''should be less than or equal'',
      ''must be less than or equal'', ''le''],
     [''multiple_of'', ''should be a multiple of'',
      ''must be a multiple of'', ''multiple''],
     [''sequence_too_short'', ''sequence too short'',
      ''should have at least'', ''min_length''],
     [''sequence_too_long'', ''sequence too long'', ''should have at most'',
      ''max_length''],
     [''one_of'', ''should be'', ''invalid choice'',
      ''not in allowed values'', ''expected''],
     [''generation_timeout'', ''generation timeout'', ''request timeout'',
      ''operation timed out''],
     [''downstream_service_error'', ''downstream service error'',
      ''external service error''],
     [''downstream_service_unavailable'', ''downstream service unavailable'',
      ''external service unavailable''],
     [''feature_not_supported'', ''feature not supported'',
      ''not supported'', ''unsupported feature''],
     [''image_load_error'', ''image load error'', ''failed to load image'',
      ''corrupted image''],
     [''file_download_error'', ''file download error'',
      ''failed to download'', ''download failed''],
     [''503'', ''502'', ''500'', ''service unavailable'', ''server error'',
      ''model unavailable'', ''temporarily unavailable'', ''maintenance''],
     [''timeout'', ''504'', ''gateway timeout'', ''request timeout'',
      ''time out'', ''timed out'', ''deadline exceeded''],
     [''400'', ''bad request'', ''invalid'', ''parameter'', ''argument'',
      ''validation error'', ''invalid input'', ''malformed'',
      ''parse error''],
     [''upload'', ''file'', ''image too large'', ''file size'',
      ''format not supported'', ''invalid file'', ''corrupted'',
      ''unsupported format''],
     [''connection'', ''network'', ''dns'', ''unreachable'',
      ''connection refused'', ''connection error'', ''network error'',
      ''ssl error''],
     [''no images'', ''empty result'', ''no output'', ''failed to generate'',
      ''generation failed'', ''no content generated''],
     [''payment'', ''billing'', ''insufficient'', ''credits'', ''balance'',
      ''subscription'', ''plan'', ''payment required'']]"

text \<open>
  \<open>validate_required_fields\<close>: the truth value of a JSON value, the test
  \<open>not data[field] or (isinstance(data[field], str) and not data[field].strip())\<close>, and the
  function, which collects every missing and every empty field before it raises.
\<close>

definition isspace :: "char \<Rightarrow> bool" where
  "isspace c \<longleftrightarrow> c \<in> set [CHR '' '', CHR 0x09, CHR 0x0A, CHR 0x0B, CHR 0x0C, CHR 0x0D,
                          CHR 0x1C, CHR 0x1D, CHR 0x1E, CHR 0x1F]"

definition is_blank :: "string \<Rightarrow> bool" where
  "is_blank s \<longleftrightarrow> list_all isspace s"

fun truthy :: "jval \<Rightarrow> bool" where
  "truthy JNone = False"
| "truthy (JBool b) = b"
| "truthy (JInt i) = (i \<noteq> 0)"
| "truthy (JFloat r) = (r \<noteq> 0)"
| "truthy (JStr s) = (s \<noteq> [])"
| "truthy (JList xs) = (xs \<noteq> [])"
| "truthy (JDict d) = (d \<noteq> [])"

definition empty_value :: "jval \<Rightarrow> bool" where
  "empty_value v \<longleftrightarrow> \<not> truthy v \<or> (case v of JStr s \<Rightarrow> is_blank s | _ \<Rightarrow> False)"

definition validate_required_fields ::
  "(string \<Rightarrow> jval option) \<Rightarrow> string list \<Rightarrow> http_exception + unit" where
  "validate_required_fields data required_fields =
     (let missing_fields = filter (\<lambda>field. data field = None) required_fields;
          empty_fields =
            filter (\<lambda>field. case data field of None \<Rightarrow> False | Some v \<Rightarrow> empty_value v)
              required_fields
      in
      if missing_fields \<noteq> [] \<or> empty_fields \<noteq> [] then
        (let error_details =
               (if missing_fields \<noteq> [] then
                  [JDict [(''type'', JStr ''missing_fields''),
                          (''fields'', JList (map JStr missing_fields)),
                          (''message'', JStr (''Missing required fields: ''
                                               @ py_join '', '' missing_fields))]]
                else [])
               @ (if empty_fields \<noteq> [] then
                    [JDict [(''type'', JStr ''empty_fields''),
                            (''fields'', JList (map JStr empty_fields)),
                            (''message'', JStr (''Empty required fields: ''
                                                 @ py_join '', '' empty_fields))]]
                  else [])
         in Inl \<lparr>status_code = 400,
                 detail = JDict
                   [(''error'', JStr ''Required Fields Validation Error''),
                    (''message'', JStr ''Some required fields are missing or empty''),
                    (''details'', JList error_details)]\<rparr>)
      else Inr ())"

text \<open>
  The substrings \<open>handle_service_error\<close> looks for in the lower-cased message, in the order
  of its tests: the provider and storage routing words first, then its own chain.
\<close>

definition service_error_patterns :: "string list" where
  "service_error_patterns =
     [''fal.ai'', ''fal_client'', ''fal-ai'',
      ''openai'', ''gpt'', ''dalle'',
      ''gemini'', ''google'', ''imagen'',
      ''storage'', ''gcs'', ''bucket'',
      ''connection'', ''timeout'', ''network'', ''unreachable'',
      ''rate limit'', ''quota'',
      ''unauthorized'', ''api key'', ''authentication'',
      ''forbidden'', ''permission'',
      ''not found'', ''404'']"

text \<open>\<open>exc.detail[k]\<close> of an \<open>HTTPException\<close>, when present.\<close>

definition detail_get :: "http_exception \<Rightarrow> string \<Rightarrow> jval option" where
  "detail_get x k = (case detail x of JDict d \<Rightarrow> map_of d k | _ \<Rightarrow> None)"

text \<open>
  The structured error of the specification: a detail dictionary with the keys
  \<open>error\<close>, \<open>message\<close>, \<open>status_code\<close> and \<open>details\<close>, whose status is the HTTP status.
\<close>

definition normalized_error :: "http_exception \<Rightarrow> bool" where
  "normalized_error x \<longleftrightarrow>
     (\<exists>t m d. detail x =
        JDict [(''error'', JStr t), (''message'', JStr m),
               (''status_code'', JInt (status_code x)), (''details'', JDict d)])"

section \<open>Exceptions, uploaded files and the outside world\<close>

text \<open>
  A raised exception is either a \<open>fastapi.HTTPException\<close> or any other exception, kept as
  its class name and its message \<open>str(e)\<close>.
\<close>

datatype exc = HTTPExc http_exception | PyExc string string

text \<open>
  A \<open>fastapi.UploadFile\<close>: its file name, its MIME type and what \<open>await file.read()\<close>
  gives (the bytes, or the exception it raises).
\<close>

record upload_file =
  uf_filename :: "string option"
  uf_content_type :: "string option"
  uf_read :: "exc + bytes"

text \<open>What \<open>PIL.Image.open\<close> returns: the size and the format of the decoded image.\<close>

record pil_image =
  im_size :: "nat \<times> nat"
  im_format :: "string option"

text \<open>
  A \<open>types.Part\<close> of a Gemini request, one chunk of a Gemini answer stream (the inline data
  of the first part of the first candidate, when all of these are present), and one generated
  image of Imagen (what saving it into a buffer gives, and what saving it to a path and reading
  the file back gives).
\<close>

datatype part = PartFromText string | PartFromBytes bytes string

record stream_chunk =
  inline_data :: "(bytes \<times> string) option"

record generated_image =
  gi_save_buffer :: "exc + bytes"
  gi_save_path :: "string \<Rightarrow> exc + bytes"

text \<open>
  Every call that leaves the process is recorded, in order, with the arguments that were sent.
\<close>

datatype call =
    OpenAIImagesGenerate string string nat string string
  | FalSubmit string "(string \<times> jval) list"
  | GeminiGenerateImages string string "(string \<times> jval) list"
  | GeminiGenerateContentStream string "part list" "string list"
  | RequestsGet string
  | BlobUploadFromString string bytes string
  | MakeDirs string
  | WriteFile string bytes
  | SaveImageFile string
  | RemoveFile string

text \<open>
  The environment: the configuration (\<open>app/core/config.py\<close>), the clock and the random
  identifier, library functions, and the answer of every provider and of the storage to each
  request. An answer is either a value or the exception the call raises. An OpenAI answer is
  the list of the urls of \<open>response.data\<close>; a fal.ai answer is \<open>None\<close> or a dictionary whose
  \<open>images\<close> entry, when present, lists the urls of the images.
\<close>

record env =
  BASE_URL :: string
  GCS_BUCKET_NAME :: "string option"
  now_strftime :: string
  uuid4_hex :: string
  b64encode :: "bytes \<Rightarrow> string"
  guess_extension :: "string \<Rightarrow> string option"
  Image_open :: "bytes \<Rightarrow> exc + pil_image"
  image_resize :: "pil_image \<Rightarrow> int \<times> int \<Rightarrow> exc + pil_image"
  image_save :: "pil_image \<Rightarrow> string \<Rightarrow> nat \<Rightarrow> exc + bytes"
  openai_images_generate :: "string \<Rightarrow> string \<Rightarrow> nat \<Rightarrow> string \<Rightarrow> string \<Rightarrow> exc + string list"
  fal_submit_get :: "string \<Rightarrow> (string \<times> jval) list \<Rightarrow> exc + string list option option"
  gemini_generate_images :: "string \<Rightarrow> string \<Rightarrow> (string \<times> jval) list \<Rightarrow> exc + generated_image list"
  gemini_generate_content_stream :: "string \<Rightarrow> part list \<Rightarrow> string list \<Rightarrow> (exc + stream_chunk) list"
  requests_get :: "string \<Rightarrow> exc + bytes"
  blob_upload_from_string :: "string \<Rightarrow> bytes \<Rightarrow> string \<Rightarrow> exc + unit"
  os_makedirs :: "string \<Rightarrow> exc + unit"
  write_file :: "string \<Rightarrow> bytes \<Rightarrow> exc + unit"

text \<open>
  A computation returns the calls it made together with its value or the exception it raised.
\<close>

type_synonym 'a io = "call list \<times> (exc + 'a)"

definition io_return :: "'a \<Rightarrow> 'a io" where
  "io_return a = ([], Inr a)"

definition io_raise :: "exc \<Rightarrow> 'a io" where
  "io_raise e = ([], Inl e)"

definition io_lift :: "exc + 'a \<Rightarrow> 'a io" where
  "io_lift r = ([], r)"

definition io_call :: "call \<Rightarrow> exc + 'a \<Rightarrow> 'a io" where
  "io_call c r = ([c], r)"

definition io_bind :: "'a io \<Rightarrow> ('a \<Rightarrow> 'b io) \<Rightarrow> 'b io" where
  "io_bind m f =
     (case m of
        (t, Inl e) \<Rightarrow> (t, Inl e)
      | (t, Inr a) \<Rightarrow> (case f a of (t', r) \<Rightarrow> (t @ t', r)))"

subsection \<open>More of Python\<close>

text \<open>\<open>str(x)\<close> of an optional string inside an f-string, and \<open>x or default\<close>.\<close>

definition str_opt :: "string option \<Rightarrow> string" where
  "str_opt x = (case x of None \<Rightarrow> ''None'' | Some s \<Rightarrow> s)"

definition or_default :: "string option \<Rightarrow> string \<Rightarrow> string" where
  "or_default x d = (case x of None \<Rightarrow> d | Some s \<Rightarrow> (if s = [] then d else s))"

text \<open>\<open>str(n)\<close> of a natural number.\<close>

function str_nat :: "nat \<Rightarrow> string" where
  "str_nat n =
     (if n < 10 then [''0123456789'' ! n]
      else str_nat (n div 10) @ [''0123456789'' ! (n mod 10)])"
  by pat_completeness auto
termination
  by (relation "measure id") auto

declare str_nat.simps [simp del]

text \<open>\<open>d.get(k, default)\<close> on a dictionary literal.\<close>

definition dict_get :: "(string \<times> 'a) list \<Rightarrow> string \<Rightarrow> 'a \<Rightarrow> 'a" where
  "dict_get d k dflt = (case map_of d k of Some v \<Rightarrow> v | None \<Rightarrow> dflt)"

text \<open>
  \<open>os.path.join(a, b)\<close> on POSIX, \<open>str.isalnum\<close> on ASCII, \<open>s.rstrip()\<close> and
  \<open>s.replace(' ', '_')\<close>.
\<close>

definition os_path_join :: "string \<Rightarrow> string \<Rightarrow> string" where
  "os_path_join a b =
     (if b \<noteq> [] \<and> hd b = CHR ''/'' then b
      else if a = [] \<or> last a = CHR ''/'' then a @ b
      else a @ ''/'' @ b)"

definition isalnum :: "char \<Rightarrow> bool" where
  "isalnum c \<longleftrightarrow>
     c \<in> set ''ABCDEFGHIJKLMNOPQRSTUVWXYZabcdefghijklmnopqrstuvwxyz0123456789''"

definition rstrip :: "string \<Rightarrow> string" where
  "rstrip s = rev (dropWhile isspace (rev s))"

definition replace_space :: "string \<Rightarrow> string" where
  "replace_space s = map (\<lambda>c. if c = CHR '' '' then CHR ''_'' else c) s"

section \<open>Media uploader (app/utils/media_uploader.py)\<close>

text \<open>
  The uploader keeps the bucket handle it obtained in \<open>__init__\<close>, or \<open>None\<close> when importing
  the storage library or creating the client raised there. No other method assigns it.
\<close>

record media_uploader =
  bucket :: "string option option"


definition upload_bytes ::
  "env \<Rightarrow> media_uploader \<Rightarrow> bytes \<Rightarrow> string \<Rightarrow> string option \<Rightarrow> string \<Rightarrow> string \<Rightarrow> string io" where
  "upload_bytes env self data filename user_id content_type media_type =
     (case bucket self of
        Some b \<Rightarrow>
          (let destination_blob_name = media_type @ ''/'' @ str_opt user_id @ ''/'' @ filename in
           io_bind (io_call (BlobUploadFromString destination_blob_name data content_type)
                      (blob_upload_from_string env destination_blob_name data content_type))
             (\<lambda>u. io_return (''https://storage.googleapis.com/'' @ str_opt (GCS_BUCKET_NAME env)
                               @ ''/'' @ destination_blob_name)))
      | None \<Rightarrow>
          (let user_folder = os_path_join (media_type @ ''s'') (or_default user_id ''anonymous'') in
           io_bind (io_call (MakeDirs user_folder) (os_makedirs env user_folder))
             (\<lambda>u. let file_path = os_path_join user_folder filename in
                io_bind (io_call (WriteFile file_path data) (write_file env file_path data))
                  (\<lambda>u. io_return (BASE_URL env @ ''/'' @ media_type @ ''s/''
                                    @ or_default user_id ''anonymous'' @ ''/'' @ filename)))))"

definition upload_image_from_url ::
  "env \<Rightarrow> media_uploader \<Rightarrow> string \<Rightarrow> string \<Rightarrow> string option \<Rightarrow> string \<Rightarrow> string \<Rightarrow> string \<Rightarrow> string io" where
  "upload_image_from_url env self image_url prompt user_id style shape model_prefix =
     (let timestamp = now_strftime env;
          safe_prompt = rstrip (filter (\<lambda>c. isalnum c \<or> c \<in> set '' -_'') (take 30 prompt));
          safe_prompt = replace_space safe_prompt;
          filename = model_prefix @ ''_'' @ timestamp @ ''_'' @ style @ ''_'' @ shape @ ''_''
                     @ safe_prompt @ ''.png''
      in io_bind (io_call (RequestsGet image_url) (requests_get env image_url))
           (\<lambda>data. upload_bytes env self data filename user_id ''image/png'' ''image''))"

text \<open>
  \<open>int(a / b)\<close>: the division raises on a zero divisor; the quotient is truncated towards
  zero (the float quotient is taken to be exact).
\<close>

definition int_true_div :: "int \<Rightarrow> int \<Rightarrow> exc + int" where
  "int_true_div a b =
     (if b = 0 then Inl (PyExc ''ZeroDivisionError'' ''division by zero'')
      else Inr (sgn a * sgn b * (\<bar>a\<bar> div \<bar>b\<bar>)))"

text \<open>
  The statements of \<open>resize_image_if_needed\<close> under \<open>try\<close>, with the exception one of them
  may raise, and the function itself: its \<open>except Exception\<close> clause logs the error and returns
  the bytes it was given.
\<close>

definition resize_image_body :: "env \<Rightarrow> bytes \<Rightarrow> int \<Rightarrow> exc + bytes" where
  "resize_image_body env image_content max_dimension =
     (case Image_open env image_content of
        Inl e \<Rightarrow> Inl e
      | Inr img \<Rightarrow>
          (let original_width = int (fst (im_size img));
               original_height = int (snd (im_size img))
           in
           if original_width \<le> max_dimension \<and> original_height \<le> max_dimension then
             Inr image_content
           else
             (case (if original_width > original_height then
                      map_sum id (\<lambda>new_height. (max_dimension, new_height))
                        (int_true_div (original_height * max_dimension) original_width)
                    else
                      map_sum id (\<lambda>new_width. (new_width, max_dimension))
                        (int_true_div (original_width * max_dimension) original_height)) of
                Inl e \<Rightarrow> Inl e
              | Inr new_size \<Rightarrow>
                  (case image_resize env img new_size of
                     Inl e \<Rightarrow> Inl e
                   | Inr resized_image \<Rightarrow>
                       (let format_to_use =
                              (case im_format img of
                                 None \<Rightarrow> ''JPEG''
                               | Some f \<Rightarrow> (if f = [] then ''JPEG'' else f))
                        in image_save env resized_image format_to_use 95)))))"

definition resize_image_if_needed :: "env \<Rightarrow> bytes \<Rightarrow> int \<Rightarrow> bytes" where
  "resize_image_if_needed env image_content max_dimension =
     (case resize_image_body env image_content max_dimension of
        Inl e \<Rightarrow> image_content
      | Inr output \<Rightarrow> output)"

section \<open>Image generation service (app/features/image_generation/image_generation.py)\<close>

text \<open>The enumerations and capability tables of \<open>image_generation_schema.py\<close>.\<close>

definition ImageStyle_values :: "string list" where
  "ImageStyle_values =
     [''Photo'', ''Illustration'', ''Comic'', ''Anime'', ''Abstract'', ''Fantasy'', ''PopArt'']"

definition ImageShape_values :: "string list" where
  "ImageShape_values = [''square'', ''portrait'', ''landscape'']"

definition ImageMode_values :: "string list" where
  "ImageMode_values = [''generate'', ''edit'']"

definition TEXT_TO_IMAGE_MODELS :: "string list" where
  "TEXT_TO_IMAGE_MODELS =
     [''dalle'', ''flux_1_spro'', ''gemini'', ''flux_kontext_dev'', ''qwen'',
      ''gemini_nanobanana'', ''seedream'']"

definition IMAGE_EDIT_MODELS :: "string list" where
  "IMAGE_EDIT_MODELS = [''flux_kontext_edit'', ''gemini_nanobanana'', ''seedream'']"

definition MODEL_MAX_IMAGES :: "(string \<times> nat) list" where
  "MODEL_MAX_IMAGES =
     [(''gemini_nanobanana'', 4), (''flux_kontext_edit'', 1), (''seedream'', 4)]"

text \<open>
  The test every fal.ai path makes on the answer:
  \<open>if not result or "images" not in result or not result["images"]: raise Exception(msg)\<close>,
  followed by \<open>result["images"][0]["url"]\<close>.
\<close>

definition first_image_url :: "string list option option \<Rightarrow> string \<Rightarrow> exc + string" where
  "first_image_url result msg =
     (case result of
        Some (Some (url # urls)) \<Rightarrow> Inr url
      | _ \<Rightarrow> Inl (PyExc ''Exception'' msg))"

text \<open>\<open>f.filename\<close> as a truth value.\<close>

definition has_filename :: "upload_file \<Rightarrow> bool" where
  "has_filename f = (case uf_filename f of None \<Rightarrow> False | Some n \<Rightarrow> n \<noteq> [])"

text \<open>
  The loop of \<open>_generate_gemini_streaming\<close> over the reference images: a file that cannot be
  read is logged and skipped.
\<close>

fun reference_parts :: "env \<Rightarrow> upload_file list \<Rightarrow> part list" where
  "reference_parts env [] = []"
| "reference_parts env (image_file # rest) =
     (if has_filename image_file then
        (case uf_read image_file of
           Inl e \<Rightarrow> reference_parts env rest
         | Inr image_content \<Rightarrow>
             PartFromBytes (resize_image_if_needed env image_content 4000)
               (or_default (uf_content_type image_file) ''image/jpeg'')
             # reference_parts env rest)
      else reference_parts env rest)"

text \<open>The loop over the answer stream: the first chunk that carries inline data.\<close>

fun first_inline_data :: "(exc + stream_chunk) list \<Rightarrow> exc + (bytes \<times> string)" where
  "first_inline_data [] =
     Inl (PyExc ''Exception'' ''No image data received from Gemini NanoBanana'')"
| "first_inline_data (Inl e # rest) = Inl e"
| "first_inline_data (Inr chunk # rest) =
     (case inline_data chunk of
        None \<Rightarrow> first_inline_data rest
      | Some (data_buffer, mime_type) \<Rightarrow>
          (if data_buffer \<noteq> [] then Inr (data_buffer, mime_type)
           else first_inline_data rest))"

definition generate_gemini_streaming ::
  "env \<Rightarrow> media_uploader \<Rightarrow> string \<Rightarrow> string option \<Rightarrow> string \<Rightarrow> string \<Rightarrow>
   upload_file list option \<Rightarrow> string io" where
  "generate_gemini_streaming env self prompt user_id style shape image_files =
     (let styled_prompt = prompt @ '', in '' @ py_lower style @ '' style'';
          added = (case image_files of
                     None \<Rightarrow> []
                   | Some fs \<Rightarrow> reference_parts env (take (min (length fs) 4) fs));
          successfully_added = length added;
          styled_prompt =
            (if successfully_added > 0 then
               styled_prompt @ ''. Use the provided '' @ str_nat successfully_added
               @ '' reference image'' @ (if successfully_added > 1 then ''s'' else [])
               @ '' as visual reference.''
             else styled_prompt);
          content_parts = PartFromText styled_prompt # added;
          model_name = ''gemini-2.5-flash-image-preview''
      in io_bind
           (io_call (GeminiGenerateContentStream model_name content_parts [''IMAGE'', ''TEXT''])
              (first_inline_data
                 (gemini_generate_content_stream env model_name content_parts [''IMAGE'', ''TEXT''])))
           (\<lambda>(data_buffer, mime_type).
              let file_extension =
                    (case guess_extension env mime_type of
                       None \<Rightarrow> ''.png''
                     | Some ext \<Rightarrow> (if ext = [] then ''.png'' else ext));
                  filename = ''nanobanana_'' @ style @ ''_'' @ shape @ ''_'' @ uuid4_hex env
                             @ ''_'' @ str_nat 0 @ file_extension
              in upload_bytes env self data_buffer filename user_id mime_type ''image''))"

text \<open>The loop of \<open>_generate_seedream\<close> that turns each reference image into a data URI.\<close>

fun seedream_data_urls :: "env \<Rightarrow> upload_file list \<Rightarrow> exc + string list" where
  "seedream_data_urls env [] = Inr []"
| "seedream_data_urls env (image_file # rest) =
     (case uf_read image_file of
        Inl e \<Rightarrow> Inl e
      | Inr image_content \<Rightarrow>
          (let resized_content = resize_image_if_needed env image_content 4000;
               image_base64 = b64encode env resized_content;
               image_data_url = ''data:'' @ str_opt (uf_content_type image_file)
                                @ '';base64,'' @ image_base64
           in case seedream_data_urls env rest of
                Inl e \<Rightarrow> Inl e
              | Inr urls \<Rightarrow> Inr (image_data_url # urls)))"

definition generate_seedream ::
  "env \<Rightarrow> media_uploader \<Rightarrow> string \<Rightarrow> string option \<Rightarrow> string \<Rightarrow> string \<Rightarrow>
   upload_file list option \<Rightarrow> string io" where
  "generate_seedream env self prompt user_id style shape image_files =
     (let styled_prompt = style @ '' style: '' @ prompt;
          shape_mapping = [(''square'', ''square''), (''portrait'', ''portrait''),
                           (''landscape'', ''landscape'')];
          image_size = dict_get shape_mapping shape ''square'';
          arguments = [(''prompt'', JStr styled_prompt),
                       (''aspect_ratio'', JStr image_size),
                       (''num_inference_steps'', JInt 50),
                       (''guidance_scale'', JFloat 7.5),
                       (''num_images'', JInt 1)];
          num_imgs = (case image_files of None \<Rightarrow> 0 | Some fs \<Rightarrow> length fs);
          prefix = ''seedream_'' @ (if num_imgs > 0 then ''edit'' else ''gen'')
      in io_bind
           (case image_files of
              Some (f # fs) \<Rightarrow>
                (if length (f # fs) > 4 then
                   io_raise (PyExc ''ValueError'' ''Maximum 4 images allowed'')
                 else
                   io_bind (io_lift (seedream_data_urls env (f # fs)))
                     (\<lambda>image_data_urls.
                        io_return (arguments @ [(''image_urls'', JList (map JStr image_data_urls))],
                                   ''fal-ai/bytedance/seedream/v4/edit'')))
            | _ \<Rightarrow> io_return (arguments, ''fal-ai/bytedance/seedream/v4/text-to-image''))
           (\<lambda>(arguments, endpoint).
              io_bind (io_call (FalSubmit endpoint arguments) (fal_submit_get env endpoint arguments))
                (\<lambda>result.
                   io_bind (io_lift (first_image_url result ''No images generated by SeeDream''))
                     (\<lambda>image_url.
                        upload_image_from_url env self image_url prompt user_id style shape prefix))))"

definition generate_from_text ::
  "env \<Rightarrow> media_uploader \<Rightarrow> string \<Rightarrow> string \<Rightarrow> string option \<Rightarrow> string \<Rightarrow> string \<Rightarrow> string io" where
  "generate_from_text env self prompt model user_id style shape =
     (let styled_prompt = prompt @ '', in '' @ py_lower style @ '' style'' in
      if model = ''dalle'' then
        (let size_mapping = [(''square'', ''1024x1024''), (''portrait'', ''1024x1792''),
                             (''landscape'', ''1792x1024'')];
             size = dict_get size_mapping shape ''1024x1024''
         in io_bind
              (io_call (OpenAIImagesGenerate ''dall-e-3'' styled_prompt 1 size ''standard'')
                 (openai_images_generate env ''dall-e-3'' styled_prompt 1 size ''standard''))
              (\<lambda>response_data.
                 case response_data of
                   [] \<Rightarrow> io_raise (PyExc ''IndexError'' ''list index out of range'')
                 | url # urls \<Rightarrow>
                     upload_image_from_url env self url prompt user_id style shape ''dalle''))
      else if model \<in> set [''flux_1_spro'', ''flux_kontext_dev'', ''qwen''] then
        (let shape_mapping = [(''square'', ''square_hd''), (''portrait'', ''portrait_4_3''),
                              (''landscape'', ''landscape_4_3'')];
             styled_prompt = style @ '' style: '' @ prompt;
             (endpoint, prefix, steps, guidance) =
               (if model = ''flux_1_spro'' then
                  (''fal-ai/flux-1/srpo'', ''flux1_srpo'', 28, 3.5)
                else if model = ''flux_kontext_dev'' then
                  (''fal-ai/flux-pro/kontext/max/text-to-image'', ''flux_kontext'', 28, 3.5)
                else
                  (''fal-ai/qwen-image'', ''qwen'', 30, 4.0));
             arguments = [(''prompt'', JStr styled_prompt),
                          (''image_size'', JStr (dict_get shape_mapping shape ''square_hd'')),
                          (''num_inference_steps'', JInt steps),
                          (''guidance_scale'', JFloat guidance),
                          (''num_images'', JInt 1),
                          (''enable_safety_checker'', JBool True)]
         in io_bind
              (io_call (FalSubmit endpoint arguments) (fal_submit_get env endpoint arguments))
              (\<lambda>result.
                 io_bind (io_lift (first_image_url result (''No images generated by '' @ model)))
                   (\<lambda>url. upload_image_from_url env self url prompt user_id style shape prefix)))
      else if model = ''gemini'' then
        (let aspect_ratio_mapping = [(''square'', ''1:1''), (''portrait'', ''9:16''),
                                     (''landscape'', ''16:9'')];
             config = [(''number_of_images'', JInt 1),
                       (''output_mime_type'', JStr ''image/jpeg''),
                       (''aspect_ratio'', JStr (dict_get aspect_ratio_mapping shape ''1:1'')),
                       (''image_size'', JStr ''1K'')];
             model_name = ''models/imagen-4.0-generate-001''
         in io_bind
              (io_call (GeminiGenerateImages model_name styled_prompt config)
                 (gemini_generate_images env model_name styled_prompt config))
              (\<lambda>generated_images.
                 case generated_images of
                   [] \<Rightarrow> io_raise (PyExc ''Exception'' ''No images generated by Gemini'')
                 | generated # others \<Rightarrow>
                     (let filename = ''gemini_'' @ style @ ''_'' @ shape @ ''_'' @ uuid4_hex env
                                     @ ''.jpg''
                      in io_bind
                           (case gi_save_buffer generated of
                              Inl (PyExc cls msg) \<Rightarrow>
                                (if cls = ''TypeError'' then
                                   (let filepath = os_path_join ''generated_images'' filename in
                                    io_bind (io_call (SaveImageFile filepath)
                                               (gi_save_path generated filepath))
                                      (\<lambda>image_bytes. (([RemoveFile filepath], Inr image_bytes))))
                                 else io_raise (PyExc cls msg))
                            | Inl e \<Rightarrow> io_raise e
                            | Inr image_bytes \<Rightarrow> io_return image_bytes)
                           (\<lambda>image_bytes.
                              upload_bytes env self image_bytes filename user_id
                                ''image/jpeg'' ''image''))))
      else if model = ''gemini_nanobanana'' then
        generate_gemini_streaming env self prompt user_id style shape None
      else if model = ''seedream'' then
        generate_seedream env self prompt user_id style shape None
      else
        io_raise (PyExc ''ValueError''
                    (''Model '' @ model @ '' not supported for text-to-image generation'')))"

definition edit_image ::
  "env \<Rightarrow> media_uploader \<Rightarrow> string \<Rightarrow> string \<Rightarrow> string option \<Rightarrow> string \<Rightarrow> string \<Rightarrow>
   upload_file list \<Rightarrow> string io" where
  "edit_image env self prompt model user_id style shape image_files =
     (let max_files = dict_get MODEL_MAX_IMAGES model 0 in
      if length image_files > max_files then
        io_raise (PyExc ''ValueError''
                    (''Model '' @ model @ '' supports maximum '' @ str_nat max_files
                     @ '' reference images''))
      else if model = ''flux_kontext_edit'' then
        (case image_files of
           [] \<Rightarrow> io_raise (PyExc ''IndexError'' ''list index out of range'')
         | image_file # others \<Rightarrow>
             io_bind (io_lift (uf_read image_file))
               (\<lambda>image_content.
                  let resized_content = resize_image_if_needed env image_content 4000;
                      image_base64 = b64encode env resized_content;
                      image_data_url = ''data:'' @ str_opt (uf_content_type image_file)
                                       @ '';base64,'' @ image_base64;
                      styled_prompt = style @ '' style: '' @ prompt;
                      shape_mapping = [(''square'', ''square_hd''), (''portrait'', ''portrait_4_3''),
                                       (''landscape'', ''landscape_4_3'')];
                      arguments = [(''prompt'', JStr styled_prompt),
                                   (''image_url'', JStr image_data_url),
                                   (''image_size'', JStr (dict_get shape_mapping shape ''square_hd'')),
                                   (''num_inference_steps'', JInt 28),
                                   (''guidance_scale'', JFloat 3.5),
                                   (''num_images'', JInt 1),
                                   (''enable_safety_checker'', JBool True)]
                  in io_bind
                       (io_call (FalSubmit ''fal-ai/flux-pro/kontext/max'' arguments)
                          (fal_submit_get env ''fal-ai/flux-pro/kontext/max'' arguments))
                       (\<lambda>result.
                          io_bind (io_lift (first_image_url result
                                              ''No images generated by Flux Kontext Edit''))
                            (\<lambda>url. upload_image_from_url env self url prompt user_id style shape
                                     ''flux_edit''))))
      else if model = ''gemini_nanobanana'' then
        generate_gemini_streaming env self prompt user_id style shape (Some image_files)
      else if model = ''seedream'' then
        generate_seedream env self prompt user_id style shape (Some image_files)
      else
        io_raise (PyExc ''ValueError'' (''Model '' @ model @ '' not supported for image editing'')))"

text \<open>\<open>ImageGenerationService.generate_image\<close>, the entry point of the service.\<close>

definition service_generate_image ::
  "env \<Rightarrow> media_uploader \<Rightarrow> string \<Rightarrow> string \<Rightarrow> string \<Rightarrow> string option \<Rightarrow> string \<Rightarrow> string \<Rightarrow>
   upload_file list option \<Rightarrow> string io" where
  "service_generate_image env self prompt model mode user_id style shape image_files =
     (if mode = ''generate'' then
        generate_from_text env self prompt model user_id style shape
      else if mode = ''edit'' then
        (case image_files of
           None \<Rightarrow> io_raise (PyExc ''ValueError'' ''Image files required for edit mode'')
         | Some [] \<Rightarrow> io_raise (PyExc ''ValueError'' ''Image files required for edit mode'')
         | Some (f # fs) \<Rightarrow> edit_image env self prompt model user_id style shape (f # fs))
      else
        io_raise (PyExc ''ValueError'' (''Invalid mode: '' @ mode)))"

section \<open>Image generation route (app/features/image_generation/image_generation_route.py)\<close>

text \<open>\<open>validate_file_types\<close> of \<open>error_handlers.py\<close>: the loop raises at the first file
  whose MIME type is not allowed.\<close>

fun validate_file_types_loop ::
  "nat \<Rightarrow> upload_file list \<Rightarrow> nat \<Rightarrow> string list \<Rightarrow> string \<Rightarrow> http_exception + unit" where
  "validate_file_types_loop i [] n allowed_types field_name = Inr ()"
| "validate_file_types_loop i (file # rest) n allowed_types field_name =
     (if (case uf_content_type file of None \<Rightarrow> True | Some t \<Rightarrow> t \<notin> set allowed_types) then
        Inl \<lparr>status_code = 400,
             detail = JDict
               [(''error'', JStr ''Invalid File Type''),
                (''message'', JStr (''Invalid file type. Supported formats: ''
                                     @ py_join '', '' allowed_types)),
                (''field'', JStr (if n > 1 then field_name @ ''['' @ str_nat i @ '']''
                                  else field_name)),
                (''received_type'', (case uf_content_type file of
                                       None \<Rightarrow> JNone
                                     | Some t \<Rightarrow> JStr t))]\<rparr>
      else validate_file_types_loop (Suc i) rest n allowed_types field_name)"

definition validate_file_types ::
  "upload_file list \<Rightarrow> string list \<Rightarrow> string \<Rightarrow> http_exception + unit" where
  "validate_file_types files allowed_types field_name =
     validate_file_types_loop 0 files (length files) allowed_types field_name"

text \<open>
  \<open>HTTPException(status_code=400, detail={"error": "Validation Error", "message": msg})\<close>,
  the exception every check of the route raises.
\<close>

definition validation_error :: "string \<Rightarrow> http_exception" where
  "validation_error msg =
     \<lparr>status_code = 400,
      detail = JDict [(''error'', JStr ''Validation Error''), (''message'', JStr msg)]\<rparr>"

text \<open>The checks of the route under \<open>if mode == "edit":\<close>.\<close>

definition edit_mode_file_checks ::
  "string \<Rightarrow> upload_file list option \<Rightarrow> http_exception + unit" where
  "edit_mode_file_checks model image_files =
     (case image_files of
        None \<Rightarrow> Inl (validation_error ''Image files required for edit mode'')
      | Some fs \<Rightarrow>
          (if fs = [] \<or> \<not> list_ex has_filename fs then
             Inl (validation_error ''Image files required for edit mode'')
           else
             (case validate_file_types fs
                     [''image/jpeg'', ''image/jpg'', ''image/png'', ''image/webp'']
                     ''image_files'' of
                Inl x \<Rightarrow> Inl x
              | Inr u \<Rightarrow>
                  (let file_count = length (filter has_filename fs) in
                   if file_count > 4 then
                     Inl (validation_error
                            (''Maximum 4 image files allowed. You uploaded ''
                             @ str_nat file_count @ '' files.''))
                   else
                     (case map_of MODEL_MAX_IMAGES model of
                        None \<Rightarrow> Inr ()
                      | Some max_allowed \<Rightarrow>
                          (if model = ''flux_kontext_edit'' then
                             (if file_count \<noteq> 1 then
                                Inl (validation_error
                                       (''Model '' @ [CHR 0x27] @ model @ [CHR 0x27]
                                        @ '' requires exactly 1 image file. You provided ''
                                        @ str_nat file_count @ '' files.''))
                              else Inr ())
                           else if file_count > max_allowed then
                             Inl (validation_error
                                    (''Model '' @ [CHR 0x27] @ model @ [CHR 0x27]
                                     @ '' supports up to '' @ str_nat max_allowed
                                     @ '' image files. You provided ''
                                     @ str_nat file_count @ '' files.''))
                           else Inr ()))))))"

record image_generation_response =
  resp_status :: int
  resp_success_message :: string
  resp_image_url :: string
  resp_model_used :: string
  resp_shape :: string

text \<open>
  The end of the endpoint: the answer built from the url the service returned, and the two
  \<open>except\<close> clauses (an \<open>HTTPException\<close> is raised again, any other exception is classified
  by \<open>handle_service_error(e, model, "image generation")\<close>).
\<close>

definition route_response ::
  "string \<Rightarrow> string \<Rightarrow> string \<Rightarrow> string io \<Rightarrow>
   call list \<times> (http_exception + image_generation_response)" where
  "route_response model mode shape r =
     (case r of
        (t, Inl (HTTPExc x)) \<Rightarrow> (t, Inl x)
      | (t, Inl (PyExc cls msg)) \<Rightarrow>
          (t, Inl (handle_service_error msg model ''image generation''))
      | (t, Inr image_url) \<Rightarrow>
          (t, Inr \<lparr>resp_status = 200,
                   resp_success_message =
                     ''Image '' @ (if mode = ''generate'' then ''generated'' else ''edited'')
                     @ '' successfully using '' @ model,
                   resp_image_url = image_url,
                   resp_model_used = model,
                   resp_shape = shape\<rparr>))"

text \<open>The endpoint \<open>POST /generate\<close>: the checks, then the call of the service.\<close>

definition route_generate_image ::
  "env \<Rightarrow> media_uploader \<Rightarrow> string \<Rightarrow> string \<Rightarrow> string \<Rightarrow> string \<Rightarrow> string \<Rightarrow>
   upload_file list option \<Rightarrow> string option \<Rightarrow>
   call list \<times> (http_exception + image_generation_response)" where
  "route_generate_image env self mode prompt model style shape image_files user_id =
     (if mode \<notin> set ImageMode_values then
        ([], Inl (validation_error (''Mode must be 'generate' or 'edit'' @ [CHR 0x27])))
      else if mode = ''generate'' \<and> model \<notin> set TEXT_TO_IMAGE_MODELS then
        ([], Inl (validation_error (''Invalid model for generate mode. Valid models: ''
                                    @ py_join '', '' TEXT_TO_IMAGE_MODELS)))
      else if mode \<noteq> ''generate'' \<and> model \<notin> set IMAGE_EDIT_MODELS then
        ([], Inl (validation_error (''Invalid model for edit mode. Valid models: ''
                                    @ py_join '', '' IMAGE_EDIT_MODELS)))
      else if prompt = [] \<or> is_blank prompt then
        ([], Inl (validation_error ''Prompt is required''))
      else if style \<notin> set ImageStyle_values then
        ([], Inl (validation_error (''Invalid style. Valid styles: ''
                                    @ py_join '', '' ImageStyle_values)))
      else if shape \<notin> set ImageShape_values then
        ([], Inl (validation_error (''Invalid shape. Valid shapes: ''
                                    @ py_join '', '' ImageShape_values)))
      else
        (case (if mode = ''edit'' then edit_mode_file_checks model image_files else Inr ()) of
           Inl x \<Rightarrow> ([], Inl x)
         | Inr u \<Rightarrow>
             route_response model mode shape
               (service_generate_image env self prompt model mode user_id style shape
                  image_files)))"

section \<open>Notions used to state the properties\<close>

text \<open>The uploaded files of a request (\<open>image_files or []\<close>) and the number the route counts.\<close>

definition files_of :: "upload_file list option \<Rightarrow> upload_file list" where
  "files_of image_files = (case image_files of None \<Rightarrow> [] | Some fs \<Rightarrow> fs)"

definition file_count :: "upload_file list option \<Rightarrow> nat" where
  "file_count image_files = length (filter has_filename (files_of image_files))"

text \<open>The test of \<open>validate_file_types\<close> on one file: its MIME type is not allowed.\<close>

definition type_rejected :: "string list \<Rightarrow> upload_file \<Rightarrow> bool" where
  "type_rejected allowed_types file =
     (case uf_content_type file of None \<Rightarrow> True | Some t \<Rightarrow> t \<notin> set allowed_types)"

text \<open>
  A concrete environment for the evaluations below: local storage succeeds, every provider
  answers with one image, and no uploaded image can be decoded.
\<close>

definition example_env :: env where
  "example_env =
     \<lparr>BASE_URL = ''http://localhost:8000'',
      GCS_BUCKET_NAME = None,
      now_strftime = ''20240101_120000'',
      uuid4_hex = ''0123abcd'',
      b64encode = (\<lambda>b. ''AAAA''),
      guess_extension = (\<lambda>m. if m = ''image/png'' then Some ''.png'' else None),
      Image_open = (\<lambda>b. Inl (PyExc ''UnidentifiedImageError'' ''cannot identify image file'')),
      image_resize = (\<lambda>i s. Inr i),
      image_save = (\<lambda>i f q. Inr [7]),
      openai_images_generate = (\<lambda>m p n s q. Inr [''https://provider.example/a.png'']),
      fal_submit_get = (\<lambda>e a. Inr (Some (Some [''https://provider.example/b.png'']))),
      gemini_generate_images =
        (\<lambda>m p c. Inr [\<lparr>gi_save_buffer = Inr [4, 5], gi_save_path = (\<lambda>p. Inr [4, 5])\<rparr>]),
      gemini_generate_content_stream =
        (\<lambda>m p r. [Inr \<lparr>inline_data = Some ([1, 2, 3], ''image/png'')\<rparr>]),
      requests_get = (\<lambda>u. Inr [1, 2, 3]),
      blob_upload_from_string = (\<lambda>n d c. Inr ()),
      os_makedirs = (\<lambda>p. Inr ()),
      write_file = (\<lambda>p d. Inr ())\<rparr>"

definition example_file :: "string \<Rightarrow> string \<Rightarrow> upload_file" where
  "example_file name mime =
     \<lparr>uf_filename = Some name, uf_content_type = Some mime, uf_read = Inr [1, 2, 3]\<rparr>"

text \<open>
  The kind of an external call: which provider or storage operation it is, whatever its
  arguments.
\<close>

fun call_kind :: "call \<Rightarrow> nat" where
  "call_kind (OpenAIImagesGenerate m p n s q) = 0"
| "call_kind (FalSubmit e a) = 1"
| "call_kind (GeminiGenerateImages m p c) = 2"
| "call_kind (GeminiGenerateContentStream m p r) = 3"
| "call_kind (RequestsGet u) = 4"
| "call_kind (BlobUploadFromString n d c) = 5"
| "call_kind (MakeDirs p) = 6"
| "call_kind (WriteFile p d) = 7"
| "call_kind (SaveImageFile p) = 8"
| "call_kind (RemoveFile p) = 9"

text \<open>
  The exception with which an external call fails in the environment, if it fails: the answer
  of the provider, of the download or of the storage to that very call (for the Gemini stream,
  the exception met while looking for the first chunk with data). Saving or removing the
  temporary Imagen file is not an answer of the environment.
\<close>

definition fault_of :: "exc + 'a \<Rightarrow> exc option" where
  "fault_of r = (case r of Inl e \<Rightarrow> Some e | Inr a \<Rightarrow> None)"

fun call_fault :: "env \<Rightarrow> call \<Rightarrow> exc option" where
  "call_fault env (OpenAIImagesGenerate m p n s q) = fault_of (openai_images_generate env m p n s q)"
| "call_fault env (FalSubmit e a) = fault_of (fal_submit_get env e a)"
| "call_fault env (GeminiGenerateImages m p c) = fault_of (gemini_generate_images env m p c)"
| "call_fault env (GeminiGenerateContentStream m p r) =
     fault_of (first_inline_data (gemini_generate_content_stream env m p r))"
| "call_fault env (RequestsGet u) = fault_of (requests_get env u)"
| "call_fault env (BlobUploadFromString n d c) = fault_of (blob_upload_from_string env n d c)"
| "call_fault env (MakeDirs p) = fault_of (os_makedirs env p)"
| "call_fault env (WriteFile p d) = fault_of (write_file env p d)"
| "call_fault env (SaveImageFile p) = None"
| "call_fault env (RemoveFile p) = None"

text \<open>
  A computation propagates faults when every failed call of its trace is the exception it
  raises; it calls once within a set of kinds when no kind of call occurs twice in its trace
  and every kind is in the set.
\<close>

definition faults_propagate :: "env \<Rightarrow> 'a io \<Rightarrow> bool" where
  "faults_propagate env r \<longleftrightarrow> (\<forall>c\<in>set (fst r). \<forall>e. call_fault env c = Some e \<longrightarrow> snd r = Inl e)"

definition calls_once_within :: "nat set \<Rightarrow> 'a io \<Rightarrow> bool" where
  "calls_once_within K r \<longleftrightarrow> distinct (map call_kind (fst r)) \<and> call_kind ` set (fst r) \<subseteq> K"

section \<open>Substring tests and lower-casing\<close>

lemma startswith_map: "startswith s p \<Longrightarrow> startswith (map f s) (map f p)"
  by (induction s p rule: startswith.induct) auto

lemma py_in_map: "py_in p s \<Longrightarrow> py_in (map f p) (map f s)"
proof (induction s)
  case Nil
  then show ?case by simp
next
  case (Cons c cs)
  from Cons.prems have "startswith (c # cs) p \<or> py_in p cs" by simp
  then show ?case
  proof
    assume "startswith (c # cs) p"
    then have "startswith (map f (c # cs)) (map f p)" by (rule startswith_map)
    then show ?thesis by simp
  next
    assume "py_in p cs"
    then have "py_in (map f p) (map f cs)" by (rule Cons.IH)
    then show ?thesis by simp
  qed
qed

lemma py_in_lower: "py_in p s \<Longrightarrow> py_lower p = p \<Longrightarrow> py_in p (py_lower s)"
  using py_in_map [of p s lower_char] by (simp add: py_lower_def)

lemma rate_limit_patterns_lower:
  "p \<in> set [''rate limit'', ''429'', ''quota exceeded'', ''too many requests'',
             ''rate exceeded'', ''throttled'', ''quota''] \<Longrightarrow> py_lower p = p"
  by (auto simp: py_lower_def lower_char_def)

section \<open>The error classifier\<close>

lemma status_code_create [simp]:
  "status_code (create_error_response st t m d f) = st"
  by (simp add: create_error_response_def Let_def)

lemma detail_get_error_create [simp]:
  "detail_get (create_error_response st t m d f) ''error'' = Some (JStr t)"
  by (simp add: create_error_response_def detail_get_def Let_def split: option.splits)

text \<open>
  C1. Whenever a pattern of the rate-limit group occurs in the message (as written or after
  lower-casing), \<open>handle_fal_ai_error\<close> returns the rate-limit response, status 429 and
  error type \<open>Rate Limit Error\<close>, whatever else the message contains; in particular a pattern
  of the invalid-request group (\<open>invalid\<close>, \<open>400\<close>, \<open>parameter\<close>, ...) further on does not change
  the result, because the rate-limit group is the first test of the chain.
\<close>

theorem fal_rate_limit_first:
  assumes "p \<in> set [''rate limit'', ''429'', ''quota exceeded'', ''too many requests'',
                     ''rate exceeded'', ''throttled'', ''quota'']"
      and "py_in p e \<or> py_in p (py_lower e)"
  shows "handle_fal_ai_error e operation =
           create_error_response 429 ''Rate Limit Error''
             ''API rate limit exceeded. You've made too many requests in a short time period.''
             (Some (JDict [
                (''service'', JStr ''AI Service''),
                (''operation'', JStr operation),
                (''error_type'', JStr ''rate_limit''),
                (''resolution'', JStr ''Wait a few minutes before making another request. Consider upgrading your service plan for higher limits.'')])) None
         \<and> status_code (handle_fal_ai_error e operation) = 429
         \<and> detail_get (handle_fal_ai_error e operation) ''error'' = Some (JStr ''Rate Limit Error'')"
proof -
  have "py_in p (py_lower e)"
    using assms py_in_lower rate_limit_patterns_lower by blast
  with assms(1) have c: "any_in (py_lower e)
      [''rate limit'', ''429'', ''quota exceeded'', ''too many requests'',
       ''rate exceeded'', ''throttled'', ''quota'']"
    unfolding any_in_def list_ex_iff by blast
  have r: "handle_fal_ai_error e operation =
           create_error_response 429 ''Rate Limit Error''
             ''API rate limit exceeded. You've made too many requests in a short time period.''
             (Some (JDict [
                (''service'', JStr ''AI Service''),
                (''operation'', JStr operation),
                (''error_type'', JStr ''rate_limit''),
                (''resolution'', JStr ''Wait a few minutes before making another request. Consider upgrading your service plan for higher limits.'')])) None"
    unfolding handle_fal_ai_error_def Let_def by (rule if_P [OF c])
  show ?thesis
    unfolding r by (simp only: status_code_create detail_get_error_create simp_thms)
qed

theorem fal_rate_limit_first_witness:
  "py_in ''429 too many requests'' ''Error 429 Too Many Requests: 429 too many requests, invalid input''
   \<and> py_in ''invalid'' (py_lower ''Error 429 Too Many Requests: 429 too many requests, invalid input'')
   \<and> status_code (handle_fal_ai_error
         ''Error 429 Too Many Requests: 429 too many requests, invalid input''
         ''image generation'') = 429
   \<and> detail_get (handle_fal_ai_error
         ''Error 429 Too Many Requests: 429 too many requests, invalid input''
         ''image generation'') ''error'' = Some (JStr ''Rate Limit Error'')"
proof -
  have m: "''429'' \<in> set [''rate limit'', ''429'', ''quota exceeded'', ''too many requests'',
                     ''rate exceeded'', ''throttled'', ''quota'']"
    by simp
  have c: "py_in ''429'' ''Error 429 Too Many Requests: 429 too many requests, invalid input''"
    by simp
  have a: "py_in ''429 too many requests''
             ''Error 429 Too Many Requests: 429 too many requests, invalid input''"
    by simp
  have b: "py_in ''invalid''
             (py_lower ''Error 429 Too Many Requests: 429 too many requests, invalid input'')"
    by (simp add: py_lower_def lower_char_def)
  from fal_rate_limit_first [OF m disjI1 [OF c], of "''image generation''"] a b
  show ?thesis by blast
qed

subsection \<open>Every result is a structured error\<close>

lemma normalized_create:
  "normalized_error (create_error_response st t m (Some (JDict d)) None)"
  by (simp add: normalized_error_def create_error_response_def)

lemma normalized_if:
  "normalized_error a \<Longrightarrow> normalized_error b \<Longrightarrow> normalized_error (if c then a else b)"
  by simp

lemma normalized_fal: "normalized_error (handle_fal_ai_error e operation)"
  unfolding handle_fal_ai_error_def Let_def
  by (intro normalized_if normalized_create)

lemma normalized_openai: "normalized_error (handle_openai_error e operation)"
  unfolding handle_openai_error_def Let_def
  by (intro normalized_if normalized_create)

lemma normalized_google: "normalized_error (handle_google_ai_error e operation)"
  unfolding handle_google_ai_error_def Let_def
  by (intro normalized_if normalized_create)

lemma normalized_storage: "normalized_error (handle_storage_error e operation)"
  unfolding handle_storage_error_def Let_def
  by (intro normalized_if normalized_create)

lemma normalized_service: "normalized_error (handle_service_error e service_name operation)"
  unfolding handle_service_error_def Let_def
  by (intro normalized_if normalized_create normalized_fal normalized_openai
        normalized_google normalized_storage)

subsection \<open>The fall-through results\<close>

lemma fal_fallthrough:
  assumes "\<not> any_in (py_lower e) (concat fal_ai_pattern_groups)"
  shows "handle_fal_ai_error e operation =
       create_error_response 500 ''AI Service Error''
         (''An unexpected error occurred with AI service during '' @ operation @ ''. This may be a temporary service issue.'')
         (Some (JDict [
            (''service'', JStr ''AI Service''),
            (''operation'', JStr operation),
            (''error_type'', JStr ''generic''),
            (''resolution'', JStr ''Try again in a few minutes. If the problem persists, contact support.''),
            (''original_error'', JStr (take 200 e))])) None"
proof -
  note h = assms [unfolded fal_ai_pattern_groups_def any_in_def, simplified]
  show ?thesis
    unfolding handle_fal_ai_error_def Let_def any_in_def using h by simp
qed

lemma service_fallthrough:
  assumes "\<not> any_in (py_lower service_name) [''fal'', ''flux'', ''kontext'']"
      and "\<not> any_in (py_lower e) service_error_patterns"
  shows "handle_service_error e service_name operation =
       create_error_response 500 ''Service Error''
         (''An error occurred during '' @ operation @ ''. Please try again later.'')
         (Some (JDict [(''service'', JStr service_name), (''operation'', JStr operation)])) None"
proof -
  note h = assms [unfolded service_error_patterns_def any_in_def, simplified]
  show ?thesis
    unfolding handle_service_error_def Let_def any_in_def using h by simp
qed

lemma service_routes_to_fal:
  assumes "any_in (py_lower service_name) [''fal'', ''flux'', ''kontext'']"
  shows "handle_service_error e service_name operation = handle_fal_ai_error e operation"
  unfolding handle_service_error_def Let_def using assms by simp

text \<open>
  C5, as stated, fails: for the service name \<open>seedream\<close> and the message \<open>boom\<close> no
  pattern of \<open>handle_service_error\<close> matches, and the result is the generic 500 of its own
  chain, whose error type is \<open>Service Error\<close>, not \<open>AI Service Error\<close>.
\<close>

theorem handle_service_error_fallthrough_counterexample:
  "\<not> any_in (py_lower ''seedream'') [''fal'', ''flux'', ''kontext'']
   \<and> \<not> any_in (py_lower ''boom'') service_error_patterns
   \<and> status_code (handle_service_error ''boom'' ''seedream'' ''image generation'') = 500
   \<and> detail_get (handle_service_error ''boom'' ''seedream'' ''image generation'') ''error''
       = Some (JStr ''Service Error'')
   \<and> detail_get (handle_service_error ''boom'' ''seedream'' ''image generation'') ''error''
       \<noteq> Some (JStr ''AI Service Error'')"
proof -
  have a: "\<not> any_in (py_lower ''seedream'') [''fal'', ''flux'', ''kontext'']"
    by (simp add: any_in_def py_lower_def lower_char_def)
  have b: "\<not> any_in (py_lower ''boom'') service_error_patterns"
    by (simp add: any_in_def py_lower_def lower_char_def service_error_patterns_def)
  show ?thesis
    unfolding service_fallthrough [OF a b] using a b by simp
qed

text \<open>
  C5, amended. \<open>handle_service_error\<close> is total and every result is a structured error: an
  \<open>HTTPException\<close> whose detail holds \<open>error\<close>, \<open>message\<close>, \<open>status_code\<close> (equal to the HTTP
  status) and \<open>details\<close>. When no pattern matches, the result is a generic 500 whose error type
  depends on the classifier that was reached: \<open>AI Service Error\<close> (with the message cut to 200
  characters) in \<open>handle_fal_ai_error\<close>, to which faults of a service named after fal, flux or
  kontext are routed, and \<open>Service Error\<close> in the chain of \<open>handle_service_error\<close> itself.
\<close>

theorem handle_service_error_total:
  "normalized_error (handle_service_error e service_name operation)
   \<and> (any_in (py_lower service_name) [''fal'', ''flux'', ''kontext'']
        \<and> \<not> any_in (py_lower e) (concat fal_ai_pattern_groups) \<longrightarrow>
      handle_service_error e service_name operation =
        create_error_response 500 ''AI Service Error''
          (''An unexpected error occurred with AI service during '' @ operation @ ''. This may be a temporary service issue.'')
          (Some (JDict [
             (''service'', JStr ''AI Service''),
             (''operation'', JStr operation),
             (''error_type'', JStr ''generic''),
             (''resolution'', JStr ''Try again in a few minutes. If the problem persists, contact support.''),
             (''original_error'', JStr (take 200 e))])) None)
   \<and> (\<not> any_in (py_lower service_name) [''fal'', ''flux'', ''kontext'']
        \<and> \<not> any_in (py_lower e) service_error_patterns \<longrightarrow>
      handle_service_error e service_name operation =
        create_error_response 500 ''Service Error''
          (''An error occurred during '' @ operation @ ''. Please try again later.'')
          (Some (JDict [(''service'', JStr service_name), (''operation'', JStr operation)])) None)"
  using normalized_service fal_fallthrough service_fallthrough service_routes_to_fal
  by presburger

theorem handle_service_error_total_witness:
  "any_in (py_lower ''flux_1_spro'') [''fal'', ''flux'', ''kontext'']
   \<and> \<not> any_in (py_lower ''boom'') (concat fal_ai_pattern_groups)
   \<and> \<not> any_in (py_lower ''qwen'') [''fal'', ''flux'', ''kontext'']
   \<and> \<not> any_in (py_lower ''boom'') service_error_patterns
   \<and> normalized_error (handle_service_error ''boom'' ''flux_1_spro'' ''image generation'')
   \<and> detail_get (handle_service_error ''boom'' ''flux_1_spro'' ''image generation'') ''error''
       = Some (JStr ''AI Service Error'')
   \<and> status_code (handle_service_error ''boom'' ''flux_1_spro'' ''image generation'') = 500
   \<and> detail_get (handle_service_error ''boom'' ''qwen'' ''image generation'') ''error''
       = Some (JStr ''Service Error'')
   \<and> status_code (handle_service_error ''boom'' ''qwen'' ''image generation'') = 500"
proof -
  have a: "any_in (py_lower ''flux_1_spro'') [''fal'', ''flux'', ''kontext'']"
    by (simp add: any_in_def py_lower_def lower_char_def)
  have b: "\<not> any_in (py_lower ''boom'') (concat fal_ai_pattern_groups)"
    by (simp add: any_in_def py_lower_def lower_char_def fal_ai_pattern_groups_def)
  have c: "\<not> any_in (py_lower ''qwen'') [''fal'', ''flux'', ''kontext'']"
    by (simp add: any_in_def py_lower_def lower_char_def)
  have d: "\<not> any_in (py_lower ''boom'') service_error_patterns"
    by (simp add: any_in_def py_lower_def lower_char_def service_error_patterns_def)
  note t1 = handle_service_error_total [of "''boom''" "''flux_1_spro''" "''image generation''"]
  note t2 = handle_service_error_total [of "''boom''" "''qwen''" "''image generation''"]
  from t1 a b have r1: "handle_service_error ''boom'' ''flux_1_spro'' ''image generation'' =
        create_error_response 500 ''AI Service Error''
          (''An unexpected error occurred with AI service during '' @ ''image generation'' @ ''. This may be a temporary service issue.'')
          (Some (JDict [
             (''service'', JStr ''AI Service''),
             (''operation'', JStr ''image generation''),
             (''error_type'', JStr ''generic''),
             (''resolution'', JStr ''Try again in a few minutes. If the problem persists, contact support.''),
             (''original_error'', JStr (take 200 ''boom''))])) None"
    by blast
  from t2 c d have r2: "handle_service_error ''boom'' ''qwen'' ''image generation'' =
        create_error_response 500 ''Service Error''
          (''An error occurred during '' @ ''image generation'' @ ''. Please try again later.'')
          (Some (JDict [(''service'', JStr ''qwen''), (''operation'', JStr ''image generation'')])) None"
    by blast
  from t1 have n: "normalized_error (handle_service_error ''boom'' ''flux_1_spro'' ''image generation'')"
    by blast
  have e1: "detail_get (handle_service_error ''boom'' ''flux_1_spro'' ''image generation'') ''error''
       = Some (JStr ''AI Service Error'')
     \<and> status_code (handle_service_error ''boom'' ''flux_1_spro'' ''image generation'') = 500"
    unfolding r1 by (simp only: status_code_create detail_get_error_create simp_thms)
  have e2: "detail_get (handle_service_error ''boom'' ''qwen'' ''image generation'') ''error''
       = Some (JStr ''Service Error'')
     \<and> status_code (handle_service_error ''boom'' ''qwen'' ''image generation'') = 500"
    unfolding r2 by (simp only: status_code_create detail_get_error_create simp_thms)
  from a b c d n e1 e2 show ?thesis by blast
qed

section \<open>Resizing reference images\<close>

text \<open>
  C10. On an image that decodes and whose width and height are both at most
  \<open>max_dimension\<close> (4000 by default), \<open>resize_image_if_needed\<close> returns the bytes it was
  given, untouched, so applying it twice is the same as applying it once.
\<close>

theorem resize_small_image_identity:
  assumes "Image_open env image_content = Inr img"
      and "int (fst (im_size img)) \<le> max_dimension"
      and "int (snd (im_size img)) \<le> max_dimension"
  shows "resize_image_if_needed env image_content max_dimension = image_content
         \<and> resize_image_if_needed env
               (resize_image_if_needed env image_content max_dimension) max_dimension
             = resize_image_if_needed env image_content max_dimension"
proof -
  have "resize_image_body env image_content max_dimension = Inr image_content"
    using assms by (simp add: resize_image_body_def Let_def)
  then have "resize_image_if_needed env image_content max_dimension = image_content"
    by (simp add: resize_image_if_needed_def)
  then show ?thesis by simp
qed

theorem resize_small_image_identity_witness:
  "Image_open (example_env\<lparr>Image_open := (\<lambda>b. Inr \<lparr>im_size = (800, 600), im_format = Some ''PNG''\<rparr>)\<rparr>)
     [1, 2, 3] = Inr \<lparr>im_size = (800, 600), im_format = Some ''PNG''\<rparr>
   \<and> int (fst (im_size \<lparr>im_size = (800, 600), im_format = Some ''PNG''\<rparr>)) \<le> 4000
   \<and> int (snd (im_size \<lparr>im_size = (800, 600), im_format = Some ''PNG''\<rparr>)) \<le> 4000
   \<and> resize_image_if_needed
         (example_env\<lparr>Image_open := (\<lambda>b. Inr \<lparr>im_size = (800, 600), im_format = Some ''PNG''\<rparr>)\<rparr>)
         [1, 2, 3] 4000 = [1, 2, 3]"
proof -
  have a: "Image_open (example_env\<lparr>Image_open := (\<lambda>b. Inr \<lparr>im_size = (800, 600), im_format = Some ''PNG''\<rparr>)\<rparr>)
     [1, 2, 3] = Inr \<lparr>im_size = (800, 600), im_format = Some ''PNG''\<rparr>"
    by simp
  have b: "int (fst (im_size \<lparr>im_size = (800, 600), im_format = Some ''PNG''\<rparr>)) \<le> 4000"
    by simp
  have c: "int (snd (im_size \<lparr>im_size = (800, 600), im_format = Some ''PNG''\<rparr>)) \<le> 4000"
    by simp
  from resize_small_image_identity [OF a b c] a b c show ?thesis by blast
qed

section \<open>Uploading to local storage\<close>

lemma io_bind_call_ok [simp]: "io_bind (io_call c (Inr a)) f = (c # fst (f a), snd (f a))"
  by (simp add: io_bind_def io_call_def split: prod.splits)

lemma io_bind_call_raise [simp]: "io_bind (io_call c (Inl e)) f = ([c], Inl e)"
  by (simp add: io_bind_def io_call_def)

lemma io_bind_return [simp]: "io_bind (io_return a) f = f a"
  by (simp add: io_bind_def io_return_def split: prod.splits)

lemma io_bind_raise [simp]: "io_bind (io_raise e) f = io_raise e"
  by (simp add: io_bind_def io_raise_def)

lemma io_bind_lift_ok [simp]: "io_bind (io_lift (Inr a)) f = f a"
  by (simp add: io_bind_def io_lift_def split: prod.splits)

lemma io_bind_lift_raise [simp]: "io_bind (io_lift (Inl e)) f = ([], Inl e)"
  by (simp add: io_bind_def io_lift_def)

lemma fst_io_return [simp]: "fst (io_return a) = []"
  and snd_io_return [simp]: "snd (io_return a) = Inr a"
  and fst_io_raise [simp]: "fst (io_raise e) = []"
  and snd_io_raise [simp]: "snd (io_raise e) = Inl e"
  by (simp_all add: io_return_def io_raise_def)




section \<open>The checks of the image endpoint\<close>

lemma status_code_validation_error [simp]: "status_code (validation_error msg) = 400"
  by (simp add: validation_error_def)

lemma detail_get_validation_error [simp]:
  "detail_get (validation_error msg) ''error'' = Some (JStr ''Validation Error'')"
  "detail_get (validation_error msg) ''message'' = Some (JStr msg)"
  by (simp_all add: validation_error_def detail_get_def)

lemma list_ex_has_filename: "list_ex has_filename fs \<longleftrightarrow> 0 < length (filter has_filename fs)"
  by (induction fs) auto

lemma edit_checks_no_named_file:
  assumes "file_count image_files = 0"
  shows "edit_mode_file_checks model image_files
           = Inl (validation_error ''Image files required for edit mode'')"
  using assms
  by (cases image_files)
     (auto simp: edit_mode_file_checks_def file_count_def files_of_def list_ex_has_filename)

lemma edit_checks_type_error:
  assumes "list_ex has_filename fs"
      and "validate_file_types fs [''image/jpeg'', ''image/jpg'', ''image/png'', ''image/webp'']
             ''image_files'' = Inl x"
  shows "edit_mode_file_checks model (Some fs) = Inl x"
  using assms by (auto simp: edit_mode_file_checks_def)

lemma edit_checks_counted:
  assumes "0 < file_count image_files"
      and "validate_file_types (files_of image_files)
             [''image/jpeg'', ''image/jpg'', ''image/png'', ''image/webp''] ''image_files'' = Inr ()"
  shows "edit_mode_file_checks model image_files =
           (if file_count image_files > 4 then
              Inl (validation_error
                     (''Maximum 4 image files allowed. You uploaded ''
                      @ str_nat (file_count image_files) @ '' files.''))
            else
              (case map_of MODEL_MAX_IMAGES model of
                 None \<Rightarrow> Inr ()
               | Some max_allowed \<Rightarrow>
                   (if model = ''flux_kontext_edit'' then
                      (if file_count image_files \<noteq> 1 then
                         Inl (validation_error
                                (''Model '' @ [CHR 0x27] @ model @ [CHR 0x27]
                                 @ '' requires exactly 1 image file. You provided ''
                                 @ str_nat (file_count image_files) @ '' files.''))
                       else Inr ())
                    else if file_count image_files > max_allowed then
                      Inl (validation_error
                             (''Model '' @ [CHR 0x27] @ model @ [CHR 0x27]
                              @ '' supports up to '' @ str_nat max_allowed
                              @ '' image files. You provided ''
                              @ str_nat (file_count image_files) @ '' files.''))
                    else Inr ())))"
proof (cases image_files)
  case None
  with assms(1) show ?thesis by (simp add: file_count_def files_of_def)
next
  case (Some fs)
  with assms(1) have ex: "list_ex has_filename fs" and ne: "fs \<noteq> []"
    by (auto simp: file_count_def files_of_def list_ex_has_filename)
  from Some assms(2) have ok: "validate_file_types fs
      [''image/jpeg'', ''image/jpg'', ''image/png'', ''image/webp''] ''image_files'' = Inr ()"
    by (simp add: files_of_def)
  have fc: "file_count image_files = length (filter has_filename fs)"
    by (simp add: Some file_count_def files_of_def)
  show ?thesis
    unfolding fc unfolding Some edit_mode_file_checks_def
    using ex ne ok by (simp add: Let_def)
qed

lemma route_edit_checks:
  assumes "model \<in> set IMAGE_EDIT_MODELS"
      and "\<not> is_blank prompt"
      and "style \<in> set ImageStyle_values"
      and "shape \<in> set ImageShape_values"
  shows "route_generate_image env self ''edit'' prompt model style shape image_files user_id =
           (case edit_mode_file_checks model image_files of
              Inl x \<Rightarrow> ([], Inl x)
            | Inr u \<Rightarrow>
                route_response model ''edit'' shape
                  (service_generate_image env self prompt model ''edit'' user_id style shape
                     image_files))"
proof -
  from assms(2) have "prompt \<noteq> []" by (auto simp: is_blank_def)
  with assms show ?thesis
    unfolding route_generate_image_def by (simp add: ImageMode_values_def)
qed

text \<open>
  C2. The capability table gives \<open>seedream\<close> and \<open>gemini_nanobanana\<close> the bound 4, and the
  documentation of the endpoint gives them 0 to 4 reference images in edit mode, so an edit
  request is to be rejected for its file count only above 4 files. The code does not follow:
  a \<open>seedream\<close> edit request without files, which does not exceed the bound, stops at the first
  file check of the endpoint with a 400 Validation Error and no provider is called.
\<close>

theorem seedream_edit_without_files_rejected:
  "map_of MODEL_MAX_IMAGES ''seedream'' = Some 4
   \<and> \<not> file_count (Some []) > 4
   \<and> route_generate_image example_env \<lparr>bucket = None\<rparr> ''edit'' ''a cat'' ''seedream''
        ''Photo'' ''square'' (Some []) None
       = ([], Inl (validation_error ''Image files required for edit mode''))
   \<and> status_code (validation_error ''Image files required for edit mode'') = 400
   \<and> detail_get (validation_error ''Image files required for edit mode'') ''error''
       = Some (JStr ''Validation Error'')"
  by (simp add: route_generate_image_def ImageMode_values_def IMAGE_EDIT_MODELS_def
        ImageStyle_values_def ImageShape_values_def is_blank_def isspace_def
        edit_mode_file_checks_def file_count_def files_of_def MODEL_MAX_IMAGES_def)

text \<open>
  C8, as stated, fails on the message: for \<open>flux_kontext_edit\<close> in edit mode without files the
  endpoint raises the 400 Validation Error of its first file check, whose message is
  \<open>Image files required for edit mode\<close> and says nothing about exactly one file.
\<close>

theorem flux_kontext_edit_no_files_counterexample:
  "route_generate_image example_env \<lparr>bucket = None\<rparr> ''edit'' ''a cat'' ''flux_kontext_edit''
        ''Photo'' ''square'' (Some []) None
       = ([], Inl (validation_error ''Image files required for edit mode''))
   \<and> detail_get (validation_error ''Image files required for edit mode'') ''message''
       = Some (JStr ''Image files required for edit mode'')
   \<and> \<not> py_in ''exactly'' (py_lower ''Image files required for edit mode'')
   \<and> \<not> py_in ''1'' (py_lower ''Image files required for edit mode'')"
  by (simp add: route_generate_image_def ImageMode_values_def IMAGE_EDIT_MODELS_def
        ImageStyle_values_def ImageShape_values_def is_blank_def isspace_def
        edit_mode_file_checks_def py_lower_def lower_char_def)

text \<open>
  C8, amended. For \<open>flux_kontext_edit\<close> in edit mode, with a valid prompt, style and shape:
  without any named file the endpoint raises a 400 Validation Error with the message
  \<open>Image files required for edit mode\<close>; with 2 to 4 named files of allowed types it raises a
  400 Validation Error whose message says that the model requires exactly 1 image file and how
  many were provided.
\<close>

theorem flux_kontext_edit_file_messages:
  assumes "\<not> is_blank prompt"
      and "style \<in> set ImageStyle_values"
      and "shape \<in> set ImageShape_values"
  shows "(file_count image_files = 0 \<longrightarrow>
          route_generate_image env self ''edit'' prompt ''flux_kontext_edit'' style shape
            image_files user_id
            = ([], Inl (validation_error ''Image files required for edit mode'')))
       \<and> (2 \<le> file_count image_files \<and> file_count image_files \<le> 4
            \<and> validate_file_types (files_of image_files)
                 [''image/jpeg'', ''image/jpg'', ''image/png'', ''image/webp''] ''image_files''
                = Inr () \<longrightarrow>
          route_generate_image env self ''edit'' prompt ''flux_kontext_edit'' style shape
            image_files user_id
            = ([], Inl (validation_error
                          (''Model '' @ [CHR 0x27] @ ''flux_kontext_edit'' @ [CHR 0x27]
                           @ '' requires exactly 1 image file. You provided ''
                           @ str_nat (file_count image_files) @ '' files.''))))"
proof -
  have m: "''flux_kontext_edit'' \<in> set IMAGE_EDIT_MODELS"
    by (simp add: IMAGE_EDIT_MODELS_def)
  note r = route_edit_checks [OF m assms, of env self image_files user_id]
  have one: "file_count image_files = 0 \<Longrightarrow>
      route_generate_image env self ''edit'' prompt ''flux_kontext_edit'' style shape
        image_files user_id
        = ([], Inl (validation_error ''Image files required for edit mode''))"
    using r edit_checks_no_named_file [of image_files "''flux_kontext_edit''"] by simp
  have two: "route_generate_image env self ''edit'' prompt ''flux_kontext_edit'' style shape
            image_files user_id
            = ([], Inl (validation_error
                          (''Model '' @ [CHR 0x27] @ ''flux_kontext_edit'' @ [CHR 0x27]
                           @ '' requires exactly 1 image file. You provided ''
                           @ str_nat (file_count image_files) @ '' files.'')))"
    if h: "2 \<le> file_count image_files" "file_count image_files \<le> 4"
      "validate_file_types (files_of image_files)
         [''image/jpeg'', ''image/jpg'', ''image/png'', ''image/webp''] ''image_files'' = Inr ()"
  proof -
    from h(1) have pos: "0 < file_count image_files" by simp
    from edit_checks_counted [OF pos h(3), of "''flux_kontext_edit''"] h(1,2)
    have "edit_mode_file_checks ''flux_kontext_edit'' image_files
            = Inl (validation_error
                          (''Model '' @ [CHR 0x27] @ ''flux_kontext_edit'' @ [CHR 0x27]
                           @ '' requires exactly 1 image file. You provided ''
                           @ str_nat (file_count image_files) @ '' files.''))"
      by (simp add: MODEL_MAX_IMAGES_def)
    with r show ?thesis by simp
  qed
  from one two show ?thesis by blast
qed

theorem flux_kontext_edit_file_messages_witness:
  "\<not> is_blank ''a cat''
   \<and> ''Photo'' \<in> set ImageStyle_values
   \<and> ''square'' \<in> set ImageShape_values
   \<and> file_count None = 0
   \<and> route_generate_image example_env \<lparr>bucket = None\<rparr> ''edit'' ''a cat'' ''flux_kontext_edit''
        ''Photo'' ''square'' None None
       = ([], Inl (validation_error ''Image files required for edit mode''))
   \<and> file_count (Some [example_file ''a.png'' ''image/png'', example_file ''b.jpg'' ''image/jpeg'']) = 2
   \<and> route_generate_image example_env \<lparr>bucket = None\<rparr> ''edit'' ''a cat'' ''flux_kontext_edit''
        ''Photo'' ''square''
        (Some [example_file ''a.png'' ''image/png'', example_file ''b.jpg'' ''image/jpeg'']) None
       = ([], Inl (validation_error
            ''Model 'flux_kontext_edit' requires exactly 1 image file. You provided 2 files.''))"
proof -
  let ?fs = "Some [example_file ''a.png'' ''image/png'', example_file ''b.jpg'' ''image/jpeg'']"
  have b: "\<not> is_blank ''a cat''"
    by (simp add: is_blank_def isspace_def)
  have c: "''Photo'' \<in> set ImageStyle_values"
    by (simp add: ImageStyle_values_def)
  have d: "''square'' \<in> set ImageShape_values"
    by (simp add: ImageShape_values_def)
  have z: "file_count None = 0"
    by (simp add: file_count_def files_of_def)
  have e: "validate_file_types (files_of ?fs)
        [''image/jpeg'', ''image/jpg'', ''image/png'', ''image/webp''] ''image_files'' = Inr ()"
    by (simp add: files_of_def validate_file_types_def example_file_def)
  have f: "file_count ?fs = 2"
    by (simp add: file_count_def files_of_def has_filename_def example_file_def)
  have s: "str_nat 2 = ''2''"
    by (simp add: str_nat.simps)
  from flux_kontext_edit_file_messages [OF b c d, of None example_env "\<lparr>bucket = None\<rparr>" None] z
  have r1: "route_generate_image example_env \<lparr>bucket = None\<rparr> ''edit'' ''a cat''
        ''flux_kontext_edit'' ''Photo'' ''square'' None None
       = ([], Inl (validation_error ''Image files required for edit mode''))"
    by blast
  from flux_kontext_edit_file_messages [OF b c d, of ?fs example_env "\<lparr>bucket = None\<rparr>" None] e f s
  have r2: "route_generate_image example_env \<lparr>bucket = None\<rparr> ''edit'' ''a cat''
        ''flux_kontext_edit'' ''Photo'' ''square'' ?fs None
       = ([], Inl (validation_error
            ''Model 'flux_kontext_edit' requires exactly 1 image file. You provided 2 files.''))"
    by simp
  from b c d z f r1 r2 show ?thesis by blast
qed

section \<open>Media validation stops at the first violation\<close>

lemma validate_file_types_loop_first:
  "validate_file_types_loop i files n allowed_types field_name = Inl x \<Longrightarrow>
   \<exists>k<length files.
     (\<forall>j<k. \<not> type_rejected allowed_types (files ! j))
     \<and> type_rejected allowed_types (files ! k)
     \<and> x = \<lparr>status_code = 400,
             detail = JDict
               [(''error'', JStr ''Invalid File Type''),
                (''message'', JStr (''Invalid file type. Supported formats: ''
                                     @ py_join '', '' allowed_types)),
                (''field'', JStr (if n > 1 then field_name @ ''['' @ str_nat (i + k) @ '']''
                                  else field_name)),
                (''received_type'', (case uf_content_type (files ! k) of
                                       None \<Rightarrow> JNone
                                     | Some t \<Rightarrow> JStr t))]\<rparr>"
proof (induction files arbitrary: i)
  case Nil
  then show ?case by simp
next
  case (Cons f rest)
  show ?case
  proof (cases "type_rejected allowed_types f")
    case True
    with Cons.prems have "x = \<lparr>status_code = 400,
             detail = JDict
               [(''error'', JStr ''Invalid File Type''),
                (''message'', JStr (''Invalid file type. Supported formats: ''
                                     @ py_join '', '' allowed_types)),
                (''field'', JStr (if n > 1 then field_name @ ''['' @ str_nat (i + 0) @ '']''
                                  else field_name)),
                (''received_type'', (case uf_content_type ((f # rest) ! 0) of
                                       None \<Rightarrow> JNone
                                     | Some t \<Rightarrow> JStr t))]\<rparr>"
      by (auto simp: type_rejected_def)
    with True show ?thesis
      by (intro exI [of _ 0]) simp
  next
    case False
    with Cons.prems have
      "validate_file_types_loop (Suc i) rest n allowed_types field_name = Inl x"
      by (simp add: type_rejected_def)
    from Cons.IH [OF this] obtain k where k: "k < length rest"
      "\<forall>j<k. \<not> type_rejected allowed_types (rest ! j)"
      "type_rejected allowed_types (rest ! k)"
      "x = \<lparr>status_code = 400,
             detail = JDict
               [(''error'', JStr ''Invalid File Type''),
                (''message'', JStr (''Invalid file type. Supported formats: ''
                                     @ py_join '', '' allowed_types)),
                (''field'', JStr (if n > 1 then field_name @ ''['' @ str_nat (Suc i + k) @ '']''
                                  else field_name)),
                (''received_type'', (case uf_content_type (rest ! k) of
                                       None \<Rightarrow> JNone
                                     | Some t \<Rightarrow> JStr t))]\<rparr>"
      by blast
    have before: "\<forall>j<Suc k. \<not> type_rejected allowed_types ((f # rest) ! j)"
      using False k(2) by (auto simp: less_Suc_eq_0_disj)
    show ?thesis
      using k before by (intro exI [of _ "Suc k"]) simp
  qed
qed

text \<open>
  C7, as stated, fails: five uploaded parts of type \<open>text/plain\<close> violate the MIME constraint
  five times and the limit of 4 files, and the error names the first part only and says nothing
  of the count.
\<close>

theorem media_validation_counterexample:
  "route_generate_image example_env \<lparr>bucket = None\<rparr> ''edit'' ''a cat'' ''seedream''
     ''Photo'' ''square''
     (Some [example_file ''a.txt'' ''text/plain'', example_file ''b.txt'' ''text/plain'',
            example_file ''c.txt'' ''text/plain'', example_file ''d.txt'' ''text/plain'',
            example_file ''e.txt'' ''text/plain'']) None
   = ([], Inl \<lparr>status_code = 400,
               detail = JDict
                 [(''error'', JStr ''Invalid File Type''),
                  (''message'', JStr ''Invalid file type. Supported formats: image/jpeg, image/jpg, image/png, image/webp''),
                  (''field'', JStr ''image_files[0]''),
                  (''received_type'', JStr ''text/plain'')]\<rparr>)"
  by (simp add: route_generate_image_def ImageMode_values_def IMAGE_EDIT_MODELS_def
        ImageStyle_values_def ImageShape_values_def is_blank_def isspace_def
        edit_mode_file_checks_def validate_file_types_def example_file_def has_filename_def
        str_nat.simps)

text \<open>
  C7, amended. Media validation stops at the first violation: when \<open>validate_file_types\<close>
  raises, its error names one file, the first whose MIME type is not allowed, and the endpoint
  raises exactly that error without looking at the number of files. Only
  \<open>validate_required_fields\<close>, which checks the fields of a dictionary, lists every violation:
  all missing and all empty fields.
\<close>

theorem media_validation_first_violation:
  "(validate_file_types files allowed_types field_name = Inl x \<longrightarrow>
      (\<exists>k<length files.
         (\<forall>j<k. \<not> type_rejected allowed_types (files ! j))
         \<and> type_rejected allowed_types (files ! k)
         \<and> x = \<lparr>status_code = 400,
                 detail = JDict
                   [(''error'', JStr ''Invalid File Type''),
                    (''message'', JStr (''Invalid file type. Supported formats: ''
                                         @ py_join '', '' allowed_types)),
                    (''field'', JStr (if length files > 1
                                      then field_name @ ''['' @ str_nat k @ '']''
                                      else field_name)),
                    (''received_type'', (case uf_content_type (files ! k) of
                                           None \<Rightarrow> JNone
                                         | Some t \<Rightarrow> JStr t))]\<rparr>))
   \<and> (model \<in> set IMAGE_EDIT_MODELS \<and> \<not> is_blank prompt \<and> style \<in> set ImageStyle_values
        \<and> shape \<in> set ImageShape_values \<and> list_ex has_filename files
        \<and> validate_file_types files
             [''image/jpeg'', ''image/jpg'', ''image/png'', ''image/webp''] ''image_files'' = Inl x
      \<longrightarrow> route_generate_image env self ''edit'' prompt model style shape (Some files) user_id
            = ([], Inl x))
   \<and> (validate_required_fields data required_fields = Inr () \<longleftrightarrow>
        (\<forall>field\<in>set required_fields. \<exists>v. data field = Some v \<and> \<not> empty_value v))
   \<and> (validate_required_fields data required_fields = Inl y \<longrightarrow>
        (\<exists>details. detail_get y ''details'' = Some (JList details)
           \<and> (\<forall>field\<in>set required_fields. data field = None \<longrightarrow>
                 (\<exists>d\<in>set details. \<exists>fields.
                     d = JDict [(''type'', JStr ''missing_fields''),
                                (''fields'', JList (map JStr fields)),
                                (''message'', JStr (''Missing required fields: ''
                                                     @ py_join '', '' fields))]
                     \<and> field \<in> set fields))
           \<and> (\<forall>field\<in>set required_fields. \<forall>v. data field = Some v \<and> empty_value v \<longrightarrow>
                 (\<exists>d\<in>set details. \<exists>fields.
                     d = JDict [(''type'', JStr ''empty_fields''),
                                (''fields'', JList (map JStr fields)),
                                (''message'', JStr (''Empty required fields: ''
                                                     @ py_join '', '' fields))]
                     \<and> field \<in> set fields))))"
proof -
  have p1: "validate_file_types files allowed_types field_name = Inl x \<longrightarrow>
      (\<exists>k<length files.
         (\<forall>j<k. \<not> type_rejected allowed_types (files ! j))
         \<and> type_rejected allowed_types (files ! k)
         \<and> x = \<lparr>status_code = 400,
                 detail = JDict
                   [(''error'', JStr ''Invalid File Type''),
                    (''message'', JStr (''Invalid file type. Supported formats: ''
                                         @ py_join '', '' allowed_types)),
                    (''field'', JStr (if length files > 1
                                      then field_name @ ''['' @ str_nat k @ '']''
                                      else field_name)),
                    (''received_type'', (case uf_content_type (files ! k) of
                                           None \<Rightarrow> JNone
                                         | Some t \<Rightarrow> JStr t))]\<rparr>)"
  proof
    assume "validate_file_types files allowed_types field_name = Inl x"
    then have "validate_file_types_loop 0 files (length files) allowed_types field_name = Inl x"
      by (simp add: validate_file_types_def)
    from validate_file_types_loop_first [OF this]
    obtain k where k: "k < length files"
      "\<forall>j<k. \<not> type_rejected allowed_types (files ! j)"
      "type_rejected allowed_types (files ! k)"
      "x = \<lparr>status_code = 400,
             detail = JDict
               [(''error'', JStr ''Invalid File Type''),
                (''message'', JStr (''Invalid file type. Supported formats: ''
                                     @ py_join '', '' allowed_types)),
                (''field'', JStr (if length files > 1
                                  then field_name @ ''['' @ str_nat (0 + k) @ '']''
                                  else field_name)),
                (''received_type'', (case uf_content_type (files ! k) of
                                       None \<Rightarrow> JNone
                                     | Some t \<Rightarrow> JStr t))]\<rparr>"
      by blast
    have "0 + k = k" by simp
    with k show "\<exists>k<length files.
         (\<forall>j<k. \<not> type_rejected allowed_types (files ! j))
         \<and> type_rejected allowed_types (files ! k)
         \<and> x = \<lparr>status_code = 400,
                 detail = JDict
                   [(''error'', JStr ''Invalid File Type''),
                    (''message'', JStr (''Invalid file type. Supported formats: ''
                                         @ py_join '', '' allowed_types)),
                    (''field'', JStr (if length files > 1
                                      then field_name @ ''['' @ str_nat k @ '']''
                                      else field_name)),
                    (''received_type'', (case uf_content_type (files ! k) of
                                           None \<Rightarrow> JNone
                                         | Some t \<Rightarrow> JStr t))]\<rparr>"
      by (intro exI [of _ k]) (simp only: simp_thms)
  qed
  have p2: "model \<in> set IMAGE_EDIT_MODELS \<and> \<not> is_blank prompt \<and> style \<in> set ImageStyle_values
        \<and> shape \<in> set ImageShape_values \<and> list_ex has_filename files
        \<and> validate_file_types files
             [''image/jpeg'', ''image/jpg'', ''image/png'', ''image/webp''] ''image_files'' = Inl x
      \<longrightarrow> route_generate_image env self ''edit'' prompt model style shape (Some files) user_id
            = ([], Inl x)"
    using route_edit_checks [of model prompt style shape env self "Some files" user_id]
      edit_checks_type_error [of files x model]
    by auto
  have p3: "validate_required_fields data required_fields = Inr () \<longleftrightarrow>
        (\<forall>field\<in>set required_fields. \<exists>v. data field = Some v \<and> \<not> empty_value v)"
    by (auto simp: validate_required_fields_def Let_def filter_empty_conv split: option.splits)
  have p4: "validate_required_fields data required_fields = Inl y \<longrightarrow>
        (\<exists>details. detail_get y ''details'' = Some (JList details)
           \<and> (\<forall>field\<in>set required_fields. data field = None \<longrightarrow>
                 (\<exists>d\<in>set details. \<exists>fields.
                     d = JDict [(''type'', JStr ''missing_fields''),
                                (''fields'', JList (map JStr fields)),
                                (''message'', JStr (''Missing required fields: ''
                                                     @ py_join '', '' fields))]
                     \<and> field \<in> set fields))
           \<and> (\<forall>field\<in>set required_fields. \<forall>v. data field = Some v \<and> empty_value v \<longrightarrow>
                 (\<exists>d\<in>set details. \<exists>fields.
                     d = JDict [(''type'', JStr ''empty_fields''),
                                (''fields'', JList (map JStr fields)),
                                (''message'', JStr (''Empty required fields: ''
                                                     @ py_join '', '' fields))]
                     \<and> field \<in> set fields)))"
  proof
    assume a: "validate_required_fields data required_fields = Inl y"
    let ?missing = "filter (\<lambda>field. data field = None) required_fields"
    let ?empty = "filter (\<lambda>field. case data field of None \<Rightarrow> False | Some v \<Rightarrow> empty_value v)
                    required_fields"
    let ?details = "(if ?missing \<noteq> [] then
                  [JDict [(''type'', JStr ''missing_fields''),
                          (''fields'', JList (map JStr ?missing)),
                          (''message'', JStr (''Missing required fields: ''
                                               @ py_join '', '' ?missing))]]
                else [])
               @ (if ?empty \<noteq> [] then
                    [JDict [(''type'', JStr ''empty_fields''),
                            (''fields'', JList (map JStr ?empty)),
                            (''message'', JStr (''Empty required fields: ''
                                                 @ py_join '', '' ?empty))]]
                  else [])"
    from a have y: "detail_get y ''details'' = Some (JList ?details)"
      by (auto simp: validate_required_fields_def Let_def detail_get_def split: if_splits)
    have m: "\<exists>d\<in>set ?details. \<exists>fields.
                     d = JDict [(''type'', JStr ''missing_fields''),
                                (''fields'', JList (map JStr fields)),
                                (''message'', JStr (''Missing required fields: ''
                                                     @ py_join '', '' fields))]
                     \<and> field \<in> set fields"
      if "field \<in> set required_fields" "data field = None" for field
    proof -
      from that have "field \<in> set ?missing" by simp
      then show ?thesis by (intro bexI [of _ "JDict [(''type'', JStr ''missing_fields''),
                          (''fields'', JList (map JStr ?missing)),
                          (''message'', JStr (''Missing required fields: ''
                                               @ py_join '', '' ?missing))]"])
          (auto simp: filter_empty_conv)
    qed
    have e: "\<exists>d\<in>set ?details. \<exists>fields.
                     d = JDict [(''type'', JStr ''empty_fields''),
                                (''fields'', JList (map JStr fields)),
                                (''message'', JStr (''Empty required fields: ''
                                                     @ py_join '', '' fields))]
                     \<and> field \<in> set fields"
      if "field \<in> set required_fields" "data field = Some v" "empty_value v" for field v
    proof -
      from that have "field \<in> set ?empty" by simp
      then show ?thesis by (intro bexI [of _ "JDict [(''type'', JStr ''empty_fields''),
                            (''fields'', JList (map JStr ?empty)),
                            (''message'', JStr (''Empty required fields: ''
                                                 @ py_join '', '' ?empty))]"])
          (auto simp: filter_empty_conv)
    qed
    from y m e show "\<exists>details. detail_get y ''details'' = Some (JList details)
           \<and> (\<forall>field\<in>set required_fields. data field = None \<longrightarrow>
                 (\<exists>d\<in>set details. \<exists>fields.
                     d = JDict [(''type'', JStr ''missing_fields''),
                                (''fields'', JList (map JStr fields)),
                                (''message'', JStr (''Missing required fields: ''
                                                     @ py_join '', '' fields))]
                     \<and> field \<in> set fields))
           \<and> (\<forall>field\<in>set required_fields. \<forall>v. data field = Some v \<and> empty_value v \<longrightarrow>
                 (\<exists>d\<in>set details. \<exists>fields.
                     d = JDict [(''type'', JStr ''empty_fields''),
                                (''fields'', JList (map JStr fields)),
                                (''message'', JStr (''Empty required fields: ''
                                                     @ py_join '', '' fields))]
                     \<and> field \<in> set fields))"
      by (intro exI [of _ ?details]) blast
  qed
  from p1 p2 p3 p4 show ?thesis by blast
qed

theorem media_validation_first_violation_witness:
  "validate_file_types [example_file ''a.txt'' ''text/plain'', example_file ''b.gif'' ''image/gif'']
     [''image/jpeg'', ''image/jpg'', ''image/png'', ''image/webp''] ''image_files''
     = Inl \<lparr>status_code = 400,
            detail = JDict
              [(''error'', JStr ''Invalid File Type''),
               (''message'', JStr ''Invalid file type. Supported formats: image/jpeg, image/jpg, image/png, image/webp''),
               (''field'', JStr ''image_files[0]''),
               (''received_type'', JStr ''text/plain'')]\<rparr>
   \<and> route_generate_image example_env \<lparr>bucket = None\<rparr> ''edit'' ''a cat'' ''seedream''
        ''Photo'' ''square''
        (Some [example_file ''a.txt'' ''text/plain'', example_file ''b.gif'' ''image/gif'']) None
       = ([], Inl \<lparr>status_code = 400,
            detail = JDict
              [(''error'', JStr ''Invalid File Type''),
               (''message'', JStr ''Invalid file type. Supported formats: image/jpeg, image/jpg, image/png, image/webp''),
               (''field'', JStr ''image_files[0]''),
               (''received_type'', JStr ''text/plain'')]\<rparr>)
   \<and> validate_required_fields [''name'' \<mapsto> JStr ''  ''] [''name'', ''email'', ''age'']
       = Inl \<lparr>status_code = 400,
              detail = JDict
                [(''error'', JStr ''Required Fields Validation Error''),
                 (''message'', JStr ''Some required fields are missing or empty''),
                 (''details'', JList
                    [JDict [(''type'', JStr ''missing_fields''),
                            (''fields'', JList [JStr ''email'', JStr ''age'']),
                            (''message'', JStr ''Missing required fields: email, age'')],
                     JDict [(''type'', JStr ''empty_fields''),
                            (''fields'', JList [JStr ''name'']),
                            (''message'', JStr ''Empty required fields: name'')]])]\<rparr>"
proof -
  let ?fs = "[example_file ''a.txt'' ''text/plain'', example_file ''b.gif'' ''image/gif'']"
  let ?x = "\<lparr>status_code = 400,
            detail = JDict
              [(''error'', JStr ''Invalid File Type''),
               (''message'', JStr ''Invalid file type. Supported formats: image/jpeg, image/jpg, image/png, image/webp''),
               (''field'', JStr ''image_files[0]''),
               (''received_type'', JStr ''text/plain'')]\<rparr>"
  have v: "validate_file_types ?fs
     [''image/jpeg'', ''image/jpg'', ''image/png'', ''image/webp''] ''image_files'' = Inl ?x"
    by (simp add: validate_file_types_def example_file_def str_nat.simps)
  have m: "''seedream'' \<in> set IMAGE_EDIT_MODELS"
    by (simp add: IMAGE_EDIT_MODELS_def)
  have b: "\<not> is_blank ''a cat''"
    by (simp add: is_blank_def isspace_def)
  have c: "''Photo'' \<in> set ImageStyle_values"
    by (simp add: ImageStyle_values_def)
  have d: "''square'' \<in> set ImageShape_values"
    by (simp add: ImageShape_values_def)
  have n: "list_ex has_filename ?fs"
    by (simp add: has_filename_def example_file_def)
  have q: "validate_required_fields [''name'' \<mapsto> JStr ''  ''] [''name'', ''email'', ''age'']
       = Inl \<lparr>status_code = 400,
              detail = JDict
                [(''error'', JStr ''Required Fields Validation Error''),
                 (''message'', JStr ''Some required fields are missing or empty''),
                 (''details'', JList
                    [JDict [(''type'', JStr ''missing_fields''),
                            (''fields'', JList [JStr ''email'', JStr ''age'']),
                            (''message'', JStr ''Missing required fields: email, age'')],
                     JDict [(''type'', JStr ''empty_fields''),
                            (''fields'', JList [JStr ''name'']),
                            (''message'', JStr ''Empty required fields: name'')]])]\<rparr>"
    by (simp add: validate_required_fields_def empty_value_def is_blank_def isspace_def Let_def)
  from media_validation_first_violation
         [of ?fs "[''image/jpeg'', ''image/jpg'', ''image/png'', ''image/webp'']" "''image_files''"
             ?x "''seedream''" "''a cat''" "''Photo''" "''square''" example_env
             "\<lparr>bucket = None\<rparr>" None]
       v m b c d n
  have r: "route_generate_image example_env \<lparr>bucket = None\<rparr> ''edit'' ''a cat'' ''seedream''
        ''Photo'' ''square'' (Some ?fs) None = ([], Inl ?x)"
    by blast
  from v r q show ?thesis by blast
qed

section \<open>What each provider is sent\<close>

lemma take_1_bind_call [simp]: "take (Suc 0) (fst (io_bind (io_call c r) f)) = [c]"
  by (cases r) simp_all

text \<open>
  C3. For each shape, the first call a request makes carries the encoding of its provider:
  the DALL-E call its \<open>size\<close> (\<open>1024x1792\<close> for portrait), the fal.ai calls of \<open>flux_1_spro\<close>,
  \<open>flux_kontext_dev\<close>, \<open>qwen\<close> and \<open>flux_kontext_edit\<close> their \<open>image_size\<close> (\<open>portrait_4_3\<close>), and
  the Imagen call its \<open>aspect_ratio\<close> (\<open>9:16\<close>); likewise for square and landscape, row by
  row of the table in the hypothesis.
\<close>

theorem shape_encodings:
  assumes "(shape, dalle_size, fal_size, gemini_ratio) \<in> set
             [(''square'', ''1024x1024'', ''square_hd'', ''1:1''),
              (''portrait'', ''1024x1792'', ''portrait_4_3'', ''9:16''),
              (''landscape'', ''1792x1024'', ''landscape_4_3'', ''16:9'')]"
  shows "take 1 (fst (service_generate_image env self prompt ''dalle'' ''generate'' user_id
                        style shape image_files))
           = [OpenAIImagesGenerate ''dall-e-3'' (prompt @ '', in '' @ py_lower style @ '' style'')
                1 dalle_size ''standard'']
       \<and> take 1 (fst (service_generate_image env self prompt ''flux_1_spro'' ''generate'' user_id
                        style shape image_files))
           = [FalSubmit ''fal-ai/flux-1/srpo''
                [(''prompt'', JStr (style @ '' style: '' @ prompt)),
                 (''image_size'', JStr fal_size),
                 (''num_inference_steps'', JInt 28),
                 (''guidance_scale'', JFloat 3.5),
                 (''num_images'', JInt 1),
                 (''enable_safety_checker'', JBool True)]]
       \<and> take 1 (fst (service_generate_image env self prompt ''flux_kontext_dev'' ''generate''
                        user_id style shape image_files))
           = [FalSubmit ''fal-ai/flux-pro/kontext/max/text-to-image''
                [(''prompt'', JStr (style @ '' style: '' @ prompt)),
                 (''image_size'', JStr fal_size),
                 (''num_inference_steps'', JInt 28),
                 (''guidance_scale'', JFloat 3.5),
                 (''num_images'', JInt 1),
                 (''enable_safety_checker'', JBool True)]]
       \<and> take 1 (fst (service_generate_image env self prompt ''qwen'' ''generate'' user_id
                        style shape image_files))
           = [FalSubmit ''fal-ai/qwen-image''
                [(''prompt'', JStr (style @ '' style: '' @ prompt)),
                 (''image_size'', JStr fal_size),
                 (''num_inference_steps'', JInt 30),
                 (''guidance_scale'', JFloat 4.0),
                 (''num_images'', JInt 1),
                 (''enable_safety_checker'', JBool True)]]
       \<and> take 1 (fst (service_generate_image env self prompt ''gemini'' ''generate'' user_id
                        style shape image_files))
           = [GeminiGenerateImages ''models/imagen-4.0-generate-001''
                (prompt @ '', in '' @ py_lower style @ '' style'')
                [(''number_of_images'', JInt 1),
                 (''output_mime_type'', JStr ''image/jpeg''),
                 (''aspect_ratio'', JStr gemini_ratio),
                 (''image_size'', JStr ''1K'')]]
       \<and> (uf_read image_file = Inr image_content \<longrightarrow>
          take 1 (fst (service_generate_image env self prompt ''flux_kontext_edit'' ''edit'' user_id
                        style shape (Some [image_file])))
           = [FalSubmit ''fal-ai/flux-pro/kontext/max''
                [(''prompt'', JStr (style @ '' style: '' @ prompt)),
                 (''image_url'', JStr (''data:'' @ str_opt (uf_content_type image_file)
                     @ '';base64,''
                     @ b64encode env (resize_image_if_needed env image_content 4000))),
                 (''image_size'', JStr fal_size),
                 (''num_inference_steps'', JInt 28),
                 (''guidance_scale'', JFloat 3.5),
                 (''num_images'', JInt 1),
                 (''enable_safety_checker'', JBool True)]])"
proof -
  from assms consider
      "shape = ''square''" "dalle_size = ''1024x1024''" "fal_size = ''square_hd''"
        "gemini_ratio = ''1:1''"
    | "shape = ''portrait''" "dalle_size = ''1024x1792''" "fal_size = ''portrait_4_3''"
        "gemini_ratio = ''9:16''"
    | "shape = ''landscape''" "dalle_size = ''1792x1024''" "fal_size = ''landscape_4_3''"
        "gemini_ratio = ''16:9''"
    by auto
  then show ?thesis
  proof cases
    case 1
    then show ?thesis
      by (simp add: service_generate_image_def generate_from_text_def edit_image_def
            dict_get_def MODEL_MAX_IMAGES_def Let_def)
  next
    case 2
    then show ?thesis
      by (simp add: service_generate_image_def generate_from_text_def edit_image_def
            dict_get_def MODEL_MAX_IMAGES_def Let_def)
  next
    case 3
    then show ?thesis
      by (simp add: service_generate_image_def generate_from_text_def edit_image_def
            dict_get_def MODEL_MAX_IMAGES_def Let_def)
  qed
qed

theorem shape_encodings_witness:
  "take 1 (fst (service_generate_image example_env \<lparr>bucket = None\<rparr> ''a cat'' ''dalle''
                  ''generate'' None ''Photo'' ''portrait'' None))
     = [OpenAIImagesGenerate ''dall-e-3'' ''a cat, in photo style'' 1 ''1024x1792'' ''standard'']
   \<and> take 1 (fst (service_generate_image example_env \<lparr>bucket = None\<rparr> ''a cat'' ''qwen''
                  ''generate'' None ''Photo'' ''portrait'' None))
     = [FalSubmit ''fal-ai/qwen-image''
          [(''prompt'', JStr ''Photo style: a cat''),
           (''image_size'', JStr ''portrait_4_3''),
           (''num_inference_steps'', JInt 30),
           (''guidance_scale'', JFloat 4.0),
           (''num_images'', JInt 1),
           (''enable_safety_checker'', JBool True)]]
   \<and> take 1 (fst (service_generate_image example_env \<lparr>bucket = None\<rparr> ''a cat'' ''gemini''
                  ''generate'' None ''Photo'' ''portrait'' None))
     = [GeminiGenerateImages ''models/imagen-4.0-generate-001'' ''a cat, in photo style''
          [(''number_of_images'', JInt 1),
           (''output_mime_type'', JStr ''image/jpeg''),
           (''aspect_ratio'', JStr ''9:16''),
           (''image_size'', JStr ''1K'')]]
   \<and> take 1 (fst (service_generate_image example_env \<lparr>bucket = None\<rparr> ''a cat''
                  ''flux_kontext_edit'' ''edit'' None ''Photo'' ''portrait''
                  (Some [example_file ''a.png'' ''image/png''])))
     = [FalSubmit ''fal-ai/flux-pro/kontext/max''
          [(''prompt'', JStr ''Photo style: a cat''),
           (''image_url'', JStr ''data:image/png;base64,AAAA''),
           (''image_size'', JStr ''portrait_4_3''),
           (''num_inference_steps'', JInt 28),
           (''guidance_scale'', JFloat 3.5),
           (''num_images'', JInt 1),
           (''enable_safety_checker'', JBool True)]]"
proof -
  have h: "(''portrait'', ''1024x1792'', ''portrait_4_3'', ''9:16'') \<in> set
             [(''square'', ''1024x1024'', ''square_hd'', ''1:1''),
              (''portrait'', ''1024x1792'', ''portrait_4_3'', ''9:16''),
              (''landscape'', ''1792x1024'', ''landscape_4_3'', ''16:9'')]"
    by simp
  have r: "uf_read (example_file ''a.png'' ''image/png'') = Inr [1, 2, 3]"
    by (simp add: example_file_def)
  have l: "py_lower ''Photo'' = ''photo''"
    by (simp add: py_lower_def lower_char_def)
  have u: "''data:'' @ str_opt (uf_content_type (example_file ''a.png'' ''image/png''))
             @ '';base64,'' @ b64encode example_env (resize_image_if_needed example_env [1, 2, 3] 4000)
           = ''data:image/png;base64,AAAA''"
    by (simp add: example_file_def str_opt_def example_env_def)
  from shape_encodings [OF h, of example_env "\<lparr>bucket = None\<rparr>" "''a cat''" None "''Photo''" None
         "example_file ''a.png'' ''image/png''" "[1, 2, 3]"] r
  show ?thesis
    unfolding l u by simp
qed

section \<open>Traces: failed calls and kinds of calls\<close>

lemma fp_return [intro!]: "faults_propagate env (io_return a)"
  and fp_raise [intro!]: "faults_propagate env (io_raise e)"
  and fp_lift [intro!]: "faults_propagate env (io_lift r)"
  by (simp_all add: faults_propagate_def io_return_def io_raise_def io_lift_def)





















lemma imagen_save_cow:
  "calls_once_within {8, 9}
     (case gi_save_buffer generated of
        Inl (PyExc cls msg) \<Rightarrow>
          (if cls = ''TypeError'' then
             (let filepath = os_path_join ''generated_images'' filename in
              io_bind (io_call (SaveImageFile filepath) (gi_save_path generated filepath))
                (\<lambda>image_bytes. (([RemoveFile filepath], Inr image_bytes))))
           else io_raise (PyExc cls msg))
      | Inl e \<Rightarrow> io_raise e
      | Inr image_bytes \<Rightarrow> io_return image_bytes)"
  by (auto simp: Let_def calls_once_within_def io_bind_def io_call_def io_raise_def io_return_def
        split: sum.splits exc.splits)




















section \<open>Edit mode without reference images\<close>

text \<open>
  C6. The documentation of the endpoint and the comments of the service give \<open>seedream\<close> and
  \<open>gemini_nanobanana\<close> 0 to 4 reference images in edit mode, and \<open>_generate_seedream\<close> has a
  text-to-image branch for a request without images. The code does not reach it from edit
  mode: a \<open>seedream\<close> edit request without reference images is rejected by the endpoint with
  a 400 Validation Error, and by the service itself with a \<open>ValueError\<close>; in both the trace
  is empty, so no provider is called.
\<close>

theorem seedream_edit_without_images_not_dispatched:
  "route_generate_image example_env \<lparr>bucket = None\<rparr> ''edit'' ''a cat'' ''seedream''
     ''Photo'' ''square'' None None
     = ([], Inl (validation_error ''Image files required for edit mode''))
   \<and> service_generate_image example_env \<lparr>bucket = None\<rparr> ''a cat'' ''seedream'' ''edit'' None
       ''Photo'' ''square'' None
     = ([], Inl (PyExc ''ValueError'' ''Image files required for edit mode''))
   \<and> service_generate_image example_env \<lparr>bucket = None\<rparr> ''a cat'' ''seedream'' ''edit'' None
       ''Photo'' ''square'' (Some [])
     = ([], Inl (PyExc ''ValueError'' ''Image files required for edit mode''))"
  by (simp add: route_generate_image_def ImageMode_values_def IMAGE_EDIT_MODELS_def
        ImageStyle_values_def ImageShape_values_def is_blank_def isspace_def
        edit_mode_file_checks_def service_generate_image_def io_raise_def)

section \<open>Swallowed and propagated faults\<close>




end
